theory Spec2Isabelle
  imports Complex_Main
begin

section \<open>Loan calculator engine: data model\<close>

text \<open>
  The engine of \<^verbatim>\<open>src/index.js\<close> (the second, current version of the file:
  classes \<^verbatim>\<open>Context\<close>, \<^verbatim>\<open>Amortization\<close> and \<^verbatim>\<open>LoanCalculatorEngine\<close>).
  JavaScript numbers are modelled as \<^typ>\<open>real\<close>: the arithmetic of the model is exact,
  and the values \<^verbatim>\<open>NaN\<close> and \<^verbatim>\<open>Infinity\<close> do not exist in it. Periods are natural
  numbers, compared with real values through \<^const>\<open>real\<close>.
  A field that may be absent (\<^verbatim>\<open>undefined\<close>) is an \<^typ>\<open>real option\<close>.
\<close>

text \<open>
  The external collaborators. \<^verbatim>\<open>financial-calculator-engine/lib/math\<close> is another
  package: its four primitives are parameters of the model, and every function below
  that calls one takes the record \<open>M\<close> of them. \<^verbatim>\<open>config()\<close> of the base engine gives
  the frequency constants.
\<close>

record CalculatorEngineMath =
  pmt :: "real \<Rightarrow> real \<Rightarrow> real \<Rightarrow> real"
  nper :: "real \<Rightarrow> real \<Rightarrow> real \<Rightarrow> real"
  effInterestRate :: "real \<Rightarrow> real \<Rightarrow> real \<Rightarrow> real"
  effTerm :: "real \<Rightarrow> real \<Rightarrow> real \<Rightarrow> real"

record frequency =
  year :: real
  month :: real

record config =
  frequency :: frequency

text \<open>
  The \<^verbatim>\<open>options\<close> object given to the constructor of \<^verbatim>\<open>Context\<close>: any of the
  user's fields may be missing, and \<^verbatim>\<open>_.merge\<close> then keeps the default.
\<close>

record options =
  presentValue :: "real option"
  interestRate :: "real option"
  interestRateFrequency :: "real option"
  "term" :: "real option"
  termFrequency :: "real option"
  repayment :: "real option"
  repaymentType :: "string option"
  repaymentFrequency :: "real option"

text \<open>
  Class \<^verbatim>\<open>Context\<close>: the fields of \<^verbatim>\<open>defaults\<close>, and the four fields that only the
  operators write and that \<^verbatim>\<open>__calculateAmortization\<close> reads with \<^verbatim>\<open>|| 0\<close>.
\<close>

record Context =
  presentValue :: real
  interestRate :: real
  interestRateFrequency :: real
  effInterestRate :: real
  "term" :: real
  termFrequency :: real
  effTerm :: real
  repayment :: real
  repaymentType :: string
  repaymentFrequency :: real
  effExtraRepayment :: "real option"
  lumpSum :: "real option"
  offset :: "real option"
  fee :: "real option"

text \<open>Class \<^verbatim>\<open>Amortization\<close>; its constructor sets every field to 0.\<close>

record Amortization =
  futureValue :: real
  repayment :: real
  interestPaid :: real
  principalPaid :: real

definition Amortization_new :: Amortization where
  "Amortization_new =
     \<lparr>futureValue = 0, repayment = 0, interestPaid = 0, principalPaid = 0\<rparr>"

text \<open>The object literal \<^verbatim>\<open>{period, context, amortization}\<close> pushed on \<^verbatim>\<open>scheduleList\<close>.\<close>

record schedule_item =
  period :: nat
  "context" :: Context
  amortization :: Amortization

text \<open>The object literal \<^verbatim>\<open>{repayment, interestPaid}\<close> built by the totals reduction.\<close>

record Totals =
  repayment :: real
  interestPaid :: real

text \<open>\<^verbatim>\<open>LoanCalculatorEngine.repaymentType\<close>.\<close>

definition interestOnly :: string where
  "interestOnly = ''IO''"

definition principalAndInterest :: string where
  "principalAndInterest = ''PI''"

text \<open>
  \<^verbatim>\<open>x || 0\<close> on an optional number: \<^verbatim>\<open>undefined\<close> and \<^verbatim>\<open>0\<close> are falsy and give 0,
  any other number is returned.
\<close>

fun or0 :: "real option \<Rightarrow> real" where
  "or0 None = 0"
| "or0 (Some v) = (if v = 0 then 0 else v)"

section \<open>Period settlement\<close>

text \<open>
  \<^verbatim>\<open>__calculateAmortization(context)\<close>, statement by statement; the variable
  \<^verbatim>\<open>repayment\<close> is assigned up to five times in the source and is \<open>repayment0\<close>,
  ..., \<open>repayment4\<close> here.
\<close>

definition calculateAmortization :: "Context \<Rightarrow> Amortization" where
  "calculateAmortization c =
     (let repayment0 = Context.repayment c;
          repayment1 = repayment0 + or0 (effExtraRepayment c);
          repayment2 = repayment1 + or0 (lumpSum c);
          offset' = or0 (offset c);
          consideredPrincipal = presentValue c - offset';
          interestPaid0 = consideredPrincipal * effInterestRate c;
          interestPaid' = max interestPaid0 0;
          repayment3 = (if repayment2 > presentValue c
                        then presentValue c + interestPaid' else repayment2);
          principalPaid' = repayment3 - interestPaid';
          futureValue' = presentValue c - principalPaid';
          repayment4 = repayment3 + or0 (fee c)
      in Amortization_new
           \<lparr>Amortization.repayment := repayment4,
            Amortization.interestPaid := interestPaid',
            principalPaid := principalPaid',
            futureValue := futureValue'\<rparr>)"

text \<open>
  The settlement as the specification words it (section 4.4, steps 1 to 7), for
  comparison with the function above.
\<close>

definition spec_total_repayment :: "Context \<Rightarrow> real" where
  "spec_total_repayment c =
     Context.repayment c
       + (case effExtraRepayment c of None \<Rightarrow> 0 | Some e \<Rightarrow> e)
       + (case lumpSum c of None \<Rightarrow> 0 | Some l \<Rightarrow> l)"

definition spec_interestPaid :: "Context \<Rightarrow> real" where
  "spec_interestPaid c =
     max 0 ((presentValue c - (case offset c of None \<Rightarrow> 0 | Some x \<Rightarrow> x))
              * effInterestRate c)"

definition spec_capped_repayment :: "Context \<Rightarrow> real" where
  "spec_capped_repayment c =
     (if spec_total_repayment c > presentValue c
      then presentValue c + spec_interestPaid c
      else spec_total_repayment c)"

definition settle_spec :: "Context \<Rightarrow> Amortization" where
  "settle_spec c =
     \<lparr>futureValue =
        presentValue c - (spec_capped_repayment c - spec_interestPaid c),
      repayment =
        spec_capped_repayment c + (case fee c of None \<Rightarrow> 0 | Some f \<Rightarrow> f),
      interestPaid = spec_interestPaid c,
      principalPaid = spec_capped_repayment c - spec_interestPaid c\<rparr>"

section \<open>Context construction\<close>

text \<open>
  \<^verbatim>\<open>Math.round\<close>: the nearest integer, a tie going up (towards plus infinity).
\<close>

definition Math_round :: "real \<Rightarrow> real" where
  "Math_round x = of_int \<lfloor>x + 1 / 2\<rfloor>"

text \<open>
  \<^verbatim>\<open>_.merge(this, defaults, options)\<close>: every field of \<^verbatim>\<open>defaults\<close>, replaced by
  the option when it is given.
\<close>

definition merge_defaults :: "config \<Rightarrow> options \<Rightarrow> Context" where
  "merge_defaults cfg opts =
     \<lparr>presentValue = (case options.presentValue opts of None \<Rightarrow> 0 | Some v \<Rightarrow> v),
      interestRate = (case options.interestRate opts of None \<Rightarrow> 0 | Some v \<Rightarrow> v),
      interestRateFrequency =
        (case options.interestRateFrequency opts of
           None \<Rightarrow> year (frequency cfg) | Some v \<Rightarrow> v),
      effInterestRate = 0,
      term = (case options.term opts of None \<Rightarrow> 0 | Some v \<Rightarrow> v),
      termFrequency =
        (case options.termFrequency opts of None \<Rightarrow> year (frequency cfg) | Some v \<Rightarrow> v),
      effTerm = 0,
      repayment = (case options.repayment opts of None \<Rightarrow> 0 | Some v \<Rightarrow> v),
      repaymentType =
        (case options.repaymentType opts of None \<Rightarrow> principalAndInterest | Some v \<Rightarrow> v),
      repaymentFrequency =
        (case options.repaymentFrequency opts of
           None \<Rightarrow> month (frequency cfg) | Some v \<Rightarrow> v),
      effExtraRepayment = None,
      lumpSum = None,
      offset = None,
      fee = None\<rparr>"

text \<open>\<^verbatim>\<open>Context.__normalizeValues\<close>; \<^verbatim>\<open>!this.term\<close> holds when the term is 0.\<close>

definition normalizeValues :: "CalculatorEngineMath \<Rightarrow> Context \<Rightarrow> Context" where
  "normalizeValues M c =
     (let c1 = c\<lparr>effInterestRate :=
                  CalculatorEngineMath.effInterestRate M
                    (interestRate c) (interestRateFrequency c) (repaymentFrequency c)\<rparr>;
          c2 = (if term c1 = 0
                then c1\<lparr>term :=
                        Math_round (nper M (presentValue c1) (effInterestRate c1)
                                      (Context.repayment c1))\<rparr>
                else c1)
      in c2\<lparr>effTerm :=
              CalculatorEngineMath.effTerm M
                (term c2) (termFrequency c2) (repaymentFrequency c2)\<rparr>)"

text \<open>The constructor of \<^verbatim>\<open>Context\<close>. It has no failing branch.\<close>

definition Context_new :: "CalculatorEngineMath \<Rightarrow> options \<Rightarrow> config \<Rightarrow> Context" where
  "Context_new M opts cfg = normalizeValues M (merge_defaults cfg opts)"

section \<open>Operators\<close>

text \<open>
  Modelled from the spec: the five operator classes under \<^verbatim>\<open>./operators\<close> are not
  part of the source given. By sections 4.2 and 6 of the specification an adjustment is
  one of five kinds, active on an inclusive range of periods; its \<^verbatim>\<open>process\<close> writes its
  own field of the context (\<^verbatim>\<open>fee\<close>, \<^verbatim>\<open>offset\<close>,
  \<^verbatim>\<open>lumpSum\<close>, \<^verbatim>\<open>effExtraRepayment\<close>), and the interest-rate change overwrites
  \<^verbatim>\<open>effInterestRate\<close>, normalised by the rule of the constructor. The active
  adjustments are applied in registration order.
\<close>

datatype adjustment =
  Fee real
| Offset real
| LumpSum real
| InterestRate real real
| ExtraRepayment real

record operator =
  startPeriod :: nat
  endPeriod :: nat
  adjustment :: adjustment

fun process :: "CalculatorEngineMath \<Rightarrow> operator \<Rightarrow> nat \<Rightarrow> Context \<Rightarrow> Context" where
  "process M op p c =
     (case adjustment op of
        Fee f \<Rightarrow> c\<lparr>fee := Some f\<rparr>
      | Offset x \<Rightarrow> c\<lparr>offset := Some x\<rparr>
      | LumpSum l \<Rightarrow> c\<lparr>lumpSum := Some l\<rparr>
      | InterestRate r fr \<Rightarrow>
          c\<lparr>effInterestRate :=
               CalculatorEngineMath.effInterestRate M r fr (repaymentFrequency c)\<rparr>
      | ExtraRepayment e \<Rightarrow> c\<lparr>effExtraRepayment := Some e\<rparr>)"

section \<open>The engine\<close>

text \<open>
  The state of a \<^verbatim>\<open>LoanCalculatorEngine\<close> that a calculation reads: the base context
  (\<^verbatim>\<open>this.__context\<close>) and the registered operators. The two fields a calculation
  writes, \<^verbatim>\<open>scheduleList\<close> and \<^verbatim>\<open>totals\<close>, are passed and returned explicitly.
\<close>

record LoanCalculatorEngine =
  base_context :: Context
  operators :: "operator list"

text \<open>
  Modelled from the spec: \<^verbatim>\<open>context()\<close> of the base class is not part of the source
  given. By section 6 of the specification, called without argument it returns a fresh
  copy of the base context: each period starts from the base parameters, and no two items
  of a schedule share a context.
\<close>

definition context_get :: "LoanCalculatorEngine \<Rightarrow> Context" where
  "context_get E = base_context E"

text \<open>
  Modelled from the spec: \<^verbatim>\<open>getOperatorsAt\<close> of the base class is not part of the
  source given; by section 4.2 it returns, in registration order, the operators whose
  inclusive range of periods holds the period.
\<close>

definition getOperatorsAt :: "LoanCalculatorEngine \<Rightarrow> nat \<Rightarrow> operator list" where
  "getOperatorsAt E p =
     filter (\<lambda>op. startPeriod op \<le> p \<and> p \<le> endPeriod op) (operators E)"

text \<open>
  Modelled from the spec: the constructor of the base class, which the constructor of
  \<^verbatim>\<open>LoanCalculatorEngine\<close> calls first, is not part of the source given. By section 6
  it takes the loan parameters; the method \<^verbatim>\<open>context(options)\<close> of the source turns
  them into \<^verbatim>\<open>new Context(options, config)\<close>, which becomes the base context. No
  operator is registered yet.
\<close>

definition LoanCalculatorEngine_new ::
  "CalculatorEngineMath \<Rightarrow> options \<Rightarrow> config \<Rightarrow> LoanCalculatorEngine" where
  "LoanCalculatorEngine_new M opts cfg =
     \<lparr>base_context = Context_new M opts cfg, operators = []\<rparr>"

datatype error = TypeError

text \<open>\<^verbatim>\<open>_.last\<close>: \<^verbatim>\<open>undefined\<close> on an empty array.\<close>

definition lodash_last :: "'a list \<Rightarrow> 'a option" where
  "lodash_last xs = (if xs = [] then None else Some (last xs))"

text \<open>\<^verbatim>\<open>__calculateRepayment(period, context)\<close>.\<close>

definition calculateRepayment :: "CalculatorEngineMath \<Rightarrow> nat \<Rightarrow> Context \<Rightarrow> real" where
  "calculateRepayment M p c =
     (let presentValue' = presentValue c;
          effInterestRate' = effInterestRate c;
          effTermRemaining = effTerm c - real p + 1;
          isInterestOnly = (repaymentType c = interestOnly)
      in if isInterestOnly then presentValue' * effInterestRate'
         else pmt M presentValue' effInterestRate' effTermRemaining)"

text \<open>
  The context after \<^verbatim>\<open>presentValue\<close> is set and the active operators have run:
  \<^verbatim>\<open>__calculateContext\<close> up to the comment \<^verbatim>\<open>// Calculate Repayment\<close>.
\<close>

definition processed_context ::
  "CalculatorEngineMath \<Rightarrow> LoanCalculatorEngine \<Rightarrow> nat \<Rightarrow> real \<Rightarrow> Context" where
  "processed_context M E p prevFutureValue =
     foldl (\<lambda>c op. process M op p c)
       ((context_get E)\<lparr>presentValue := prevFutureValue\<rparr>)
       (getOperatorsAt E p)"

text \<open>
  \<^verbatim>\<open>__calculateContext(period, prevScheduleItem)\<close>. Reading a field of
  \<^verbatim>\<open>undefined\<close> throws; \<^verbatim>\<open>!prevRepayment\<close> holds when the previous repayment is 0.
\<close>

definition calculateContext ::
  "CalculatorEngineMath \<Rightarrow> LoanCalculatorEngine \<Rightarrow> nat \<Rightarrow> schedule_item option
     \<Rightarrow> error + Context" where
  "calculateContext M E p prevScheduleItem =
     (case prevScheduleItem of
        None \<Rightarrow> Inl TypeError
      | Some prev \<Rightarrow>
          (let prevFutureValue = futureValue (amortization prev);
               prevEffInterestRate = effInterestRate (context prev);
               prevRepayment = Context.repayment (context prev);
               c = processed_context M E p prevFutureValue;
               hasChangedEffInterestRate = (prevEffInterestRate \<noteq> effInterestRate c);
               mustRecalculateRepayment = (prevRepayment = 0 \<or> hasChangedEffInterestRate)
           in Inr (c\<lparr>Context.repayment :=
                       (if mustRecalculateRepayment then calculateRepayment M p c
                        else prevRepayment)\<rparr>)))"

text \<open>\<^verbatim>\<open>__calculateInitialPeriod\<close>, on the list that \<^verbatim>\<open>__clearResults\<close> emptied.\<close>

definition calculateInitialPeriod ::
  "LoanCalculatorEngine \<Rightarrow> schedule_item list \<Rightarrow> schedule_item list" where
  "calculateInitialPeriod E scheduleList =
     scheduleList @
       [\<lparr>period = 0, context = context_get E,
         amortization = Amortization_new\<lparr>futureValue := presentValue (context_get E)\<rparr>\<rparr>]"

text \<open>
  The loop of \<^verbatim>\<open>__calculate\<close>, from the value \<open>p\<close> of \<^verbatim>\<open>period\<close> on: while
  \<^verbatim>\<open>period <= effTerm\<close>, one entry is pushed, and the loop is left when its
  \<^verbatim>\<open>futureValue\<close> is at most 0.
\<close>

function calculate_loop ::
  "CalculatorEngineMath \<Rightarrow> LoanCalculatorEngine \<Rightarrow> nat \<Rightarrow> schedule_item list
     \<Rightarrow> error + schedule_item list" where
  "calculate_loop M E p scheduleList =
     (if real p \<le> effTerm (base_context E) then
        (case calculateContext M E p (lodash_last scheduleList) of
           Inl e \<Rightarrow> Inl e
         | Inr c \<Rightarrow>
             (let a = calculateAmortization c;
                  scheduleList' =
                    scheduleList @ [\<lparr>period = p, context = c, amortization = a\<rparr>]
              in if futureValue a \<le> 0 then Inr scheduleList'
                 else calculate_loop M E (Suc p) scheduleList'))
      else Inr scheduleList)"
  by pat_completeness auto
termination
  by (relation "measure (\<lambda>(M, E, p, sl). nat \<lceil>effTerm (base_context E)\<rceil> + 1 - p)")
     (simp_all add: Suc_diff_le le_nat_iff le_ceiling_iff)

text \<open>\<^verbatim>\<open>__calculate\<close>: the loop starts at period 1.\<close>

definition calculate_schedule ::
  "CalculatorEngineMath \<Rightarrow> LoanCalculatorEngine \<Rightarrow> schedule_item list
     \<Rightarrow> error + schedule_item list" where
  "calculate_schedule M E scheduleList = calculate_loop M E 1 scheduleList"

text \<open>
  \<^verbatim>\<open>__calculateTotals\<close>. \<^verbatim>\<open>reduce\<close> without an initial value throws a TypeError
  on an empty array, and otherwise starts from the first amortization, of which the
  callback reads \<^verbatim>\<open>repayment\<close> and \<^verbatim>\<open>interestPaid\<close>. (On a one-element array the
  result is that first amortization itself: its two other fields are dropped here.)
\<close>

definition totals_view :: "Amortization \<Rightarrow> Totals" where
  "totals_view a =
     \<lparr>repayment = Amortization.repayment a, interestPaid = Amortization.interestPaid a\<rparr>"

definition sum_totals :: "Totals \<Rightarrow> Amortization \<Rightarrow> Totals" where
  "sum_totals previous current =
     \<lparr>repayment = Totals.repayment previous + Amortization.repayment current,
      interestPaid = Totals.interestPaid previous + Amortization.interestPaid current\<rparr>"

definition calculateTotals :: "schedule_item list \<Rightarrow> error + Totals" where
  "calculateTotals scheduleList =
     (case map amortization scheduleList of
        [] \<Rightarrow> Inl TypeError
      | a # amortizationList \<Rightarrow> Inr (foldl sum_totals (totals_view a) amortizationList))"

text \<open>The object \<^verbatim>\<open>{totals, scheduleList}\<close> that \<^verbatim>\<open>calculate()\<close> returns.\<close>

record calculation =
  totals :: Totals
  scheduleList :: "schedule_item list"

text \<open>
  \<^verbatim>\<open>calculate()\<close>: \<^verbatim>\<open>__beforeCalculate\<close> (clear the results, push the initial
  period), \<^verbatim>\<open>__calculate\<close>, \<^verbatim>\<open>__afterCalculate\<close> (the totals).
\<close>

definition calculate :: "CalculatorEngineMath \<Rightarrow> LoanCalculatorEngine \<Rightarrow> error + calculation" where
  "calculate M E =
     (case calculate_schedule M E (calculateInitialPeriod E []) of
        Inl e \<Rightarrow> Inl e
      | Inr sl \<Rightarrow>
          (case calculateTotals sl of
             Inl e \<Rightarrow> Inl e
           | Inr t \<Rightarrow> Inr \<lparr>totals = t, scheduleList = sl\<rparr>))"

section \<open>Concrete collaborators, for evaluation\<close>

text \<open>
  Modelled from the spec: the math primitives and the frequency constants belong to the
  package \<^verbatim>\<open>financial-calculator-engine\<close>, which is not part of the source given.
  Section 4.1 defines a frequency as occurrences per year (1 for a year, 12 for a
  month), and its scenario (rate 0.06 a year and 10 years, repaid monthly, give 0.005
  and 120) fixes the two normalisations; section 4.3 asks of the payment formula that it
  is \<open>presentValue / periods\<close> at rate 0 and the annuity payment otherwise, and the
  number of periods is its inverse. These definitions are used at concrete inputs only;
  the theorems hold for every record of primitives. (At a divisor 0 the source yields
  \<^verbatim>\<open>NaN\<close> or \<^verbatim>\<open>Infinity\<close>; no evaluation below divides by 0.)
\<close>

definition annuity_math :: CalculatorEngineMath where
  "annuity_math =
     \<lparr>pmt = (\<lambda>pv r n. if r = 0 then pv / n else pv * r / (1 - (1 + r) powr (- n))),
      nper = (\<lambda>pv r a. if r = 0 then pv / a else - log (1 + r) (1 - pv * r / a)),
      effInterestRate = (\<lambda>r from to. r * from / to),
      effTerm = (\<lambda>t from to. t * to / from)\<rparr>"

definition std_config :: config where
  "std_config = \<lparr>frequency = \<lparr>year = 1, month = 12\<rparr>\<rparr>"

section \<open>The schedule as a chain of items\<close>

text \<open>
  Names for what one round of the loop computes, used to state what the loop returns:
  the item of period 0, the context \<^verbatim>\<open>__calculateContext\<close> returns on a previous item,
  the item the loop pushes, and the lists of items the loop can push after an item.
\<close>

definition initial_item :: "LoanCalculatorEngine \<Rightarrow> schedule_item" where
  "initial_item E =
     \<lparr>period = 0, context = base_context E,
      amortization = Amortization_new\<lparr>futureValue := presentValue (base_context E)\<rparr>\<rparr>"

definition decided_context ::
  "CalculatorEngineMath \<Rightarrow> LoanCalculatorEngine \<Rightarrow> nat \<Rightarrow> schedule_item \<Rightarrow> Context" where
  "decided_context M E p prev =
     (let c = processed_context M E p (futureValue (amortization prev))
      in c\<lparr>Context.repayment :=
             (if Context.repayment (context prev) = 0
                 \<or> effInterestRate (context prev) \<noteq> effInterestRate c
              then calculateRepayment M p c
              else Context.repayment (context prev))\<rparr>)"

definition next_item ::
  "CalculatorEngineMath \<Rightarrow> LoanCalculatorEngine \<Rightarrow> nat \<Rightarrow> schedule_item \<Rightarrow> schedule_item" where
  "next_item M E p prev =
     \<lparr>period = p, context = decided_context M E p prev,
      amortization = calculateAmortization (decided_context M E p prev)\<rparr>"

fun follows ::
  "CalculatorEngineMath \<Rightarrow> LoanCalculatorEngine \<Rightarrow> nat \<Rightarrow> schedule_item
     \<Rightarrow> schedule_item list \<Rightarrow> bool" where
  "follows M E p prev [] = True"
| "follows M E p prev (x # xs) =
     (x = next_item M E p prev
      \<and> real p \<le> effTerm (base_context E)
      \<and> (xs \<noteq> [] \<longrightarrow> 0 < futureValue (amortization x))
      \<and> follows M E (Suc p) x xs)"

section \<open>The repayment policy, in words\<close>

text \<open>
  The decision of section 4.3 of the specification: recompute in the first period or when
  the effective rate has changed, carry the previous repayment over otherwise.
\<close>

definition spec_decideRepayment ::
  "CalculatorEngineMath \<Rightarrow> nat \<Rightarrow> Context \<Rightarrow> Context \<Rightarrow> real" where
  "spec_decideRepayment M p c previousContext =
     (if p = 1 \<or> effInterestRate c \<noteq> effInterestRate previousContext
      then (if repaymentType c = interestOnly then presentValue c * effInterestRate c
            else pmt M (presentValue c) (effInterestRate c) (effTerm c - real p + 1))
      else Context.repayment previousContext)"

text \<open>
  The same decision with the test the source makes in place of "the first period": the
  previous repayment is 0.
\<close>

definition amended_decideRepayment ::
  "CalculatorEngineMath \<Rightarrow> nat \<Rightarrow> Context \<Rightarrow> Context \<Rightarrow> real" where
  "amended_decideRepayment M p c previousContext =
     (if Context.repayment previousContext = 0
         \<or> effInterestRate c \<noteq> effInterestRate previousContext
      then (if repaymentType c = interestOnly then presentValue c * effInterestRate c
            else pmt M (presentValue c) (effInterestRate c) (effTerm c - real p + 1))
      else Context.repayment previousContext)"

section \<open>Inputs that are not negative\<close>

text \<open>
  What "non-negative inputs" means for an adjustment (the value it writes is not
  negative; a rate change is judged by the effective rate it writes, and a fee, which
  never enters the balance, is not constrained) and for the adjustment fields and the
  effective rate of a context; and the property of an item that the loop keeps: the
  effective rate is not negative, and the base repayment of the context, unless it is 0,
  is at least the interest on the balance the item leaves.
\<close>

definition nonneg_adjustment :: "CalculatorEngineMath \<Rightarrow> real \<Rightarrow> adjustment \<Rightarrow> bool" where
  "nonneg_adjustment M repaymentFrequency' a =
     (case a of
        Fee f \<Rightarrow> True
      | Offset x \<Rightarrow> 0 \<le> x
      | LumpSum l \<Rightarrow> 0 \<le> l
      | InterestRate r fr \<Rightarrow>
          0 \<le> CalculatorEngineMath.effInterestRate M r fr repaymentFrequency'
      | ExtraRepayment e \<Rightarrow> 0 \<le> e)"

definition nonneg_context :: "Context \<Rightarrow> bool" where
  "nonneg_context c =
     (0 \<le> effInterestRate c \<and> 0 \<le> or0 (effExtraRepayment c)
      \<and> 0 \<le> or0 (lumpSum c) \<and> 0 \<le> or0 (offset c))"

definition repayment_covers_interest :: "schedule_item \<Rightarrow> bool" where
  "repayment_covers_interest x =
     (0 \<le> effInterestRate (context x)
      \<and> (Context.repayment (context x) = 0
          \<or> futureValue (amortization x) * effInterestRate (context x)
              \<le> Context.repayment (context x)))"

section \<open>Relating two runs\<close>

text \<open>
  Two contexts that differ at most in the field \<^verbatim>\<open>fee\<close>, and two schedule items that
  agree but for the fee of the context and the repayment reported by the amortization,
  which agree once each fee is taken off.
\<close>

definition same_but_fee :: "Context \<Rightarrow> Context \<Rightarrow> bool" where
  "same_but_fee c c' = (c\<lparr>fee := None\<rparr> = c'\<lparr>fee := None\<rparr>)"

definition same_but_fee_item :: "schedule_item \<Rightarrow> schedule_item \<Rightarrow> bool" where
  "same_but_fee_item x x' =
     (period x = period x'
      \<and> same_but_fee (context x) (context x')
      \<and> Amortization.interestPaid (amortization x) = Amortization.interestPaid (amortization x')
      \<and> principalPaid (amortization x) = principalPaid (amortization x')
      \<and> futureValue (amortization x) = futureValue (amortization x')
      \<and> Amortization.repayment (amortization x) - or0 (fee (context x))
          = Amortization.repayment (amortization x') - or0 (fee (context x')))"

definition active :: "operator \<Rightarrow> nat \<Rightarrow> bool" where
  "active op p = (startPeriod op \<le> p \<and> p \<le> endPeriod op)"

text \<open>
  The relation between the items of a run and of the run without the operator \<open>op\<close>:
  they agree but for the fee, and they are equal in a period where \<open>op\<close> is not active.
\<close>

definition without_fee :: "operator \<Rightarrow> schedule_item \<Rightarrow> schedule_item \<Rightarrow> bool" where
  "without_fee op x x' =
     (same_but_fee_item x x' \<and> (\<not> active op (period x) \<longrightarrow> x = x'))"

section \<open>Rounding, in words\<close>

text \<open>
  Rounding to the nearest integer with a tie going away from zero, as section 4.1 of the
  specification describes the rounding of the derived term.
\<close>

definition round_half_away_from_zero :: "real \<Rightarrow> real" where
  "round_half_away_from_zero x = sgn x * of_int \<lfloor>\<bar>x\<bar> + 1 / 2\<rfloor>"

section \<open>Concrete loans, for evaluation\<close>

definition no_options :: options where
  "no_options =
     \<lparr>options.presentValue = None, options.interestRate = None,
      options.interestRateFrequency = None, options.term = None,
      options.termFrequency = None, options.repayment = None,
      options.repaymentType = None, options.repaymentFrequency = None\<rparr>"

text \<open>
  1000 at rate 0 over 3 months, repaid monthly, with a fee of 10 in period 2.
\<close>

definition level_options :: options where
  "level_options =
     no_options\<lparr>options.presentValue := Some 1000, options.term := Some 3,
                options.termFrequency := Some 12\<rparr>"

definition level_engine :: LoanCalculatorEngine where
  "level_engine =
     (LoanCalculatorEngine_new annuity_math level_options std_config)
       \<lparr>operators := [\<lparr>startPeriod = 2, endPeriod = 2, adjustment = Fee 10\<rparr>]\<rparr>"

text \<open>
  An interest-only loan of 1000 at 12 percent a year over 5 months, repaid monthly; the
  rate changes to 24 percent a year from period 2 on, and a lump sum of 1000 is paid in
  period 3.
\<close>

definition interest_only_options :: options where
  "interest_only_options =
     no_options\<lparr>options.presentValue := Some 1000, options.interestRate := Some (12 / 100),
                options.term := Some 5, options.termFrequency := Some 12,
                options.repaymentType := Some interestOnly\<rparr>"

definition interest_only_engine :: LoanCalculatorEngine where
  "interest_only_engine =
     (LoanCalculatorEngine_new annuity_math interest_only_options std_config)
       \<lparr>operators :=
          [\<lparr>startPeriod = 2, endPeriod = 5, adjustment = InterestRate (24 / 100) 1\<rparr>,
           \<lparr>startPeriod = 3, endPeriod = 3, adjustment = LumpSum 1000\<rparr>]\<rparr>"

text \<open>1000 at rate 0 over 3 months, with a fixed repayment of 500 given by the user.\<close>

definition fixed_repayment_options :: options where
  "fixed_repayment_options = level_options\<lparr>options.repayment := Some 500\<rparr>"

definition fixed_repayment_engine :: LoanCalculatorEngine where
  "fixed_repayment_engine =
     LoanCalculatorEngine_new annuity_math fixed_repayment_options std_config"

text \<open>The interest-only loan without its two adjustments.\<close>

definition plain_interest_only_engine :: LoanCalculatorEngine where
  "plain_interest_only_engine =
     LoanCalculatorEngine_new annuity_math interest_only_options std_config"

text \<open>
  1000 at rate 0 with a term of one month and yearly repayments: the effective term is a
  twelfth of a period.
\<close>

definition sub_period_options :: options where
  "sub_period_options =
     no_options\<lparr>options.presentValue := Some 1000, options.term := Some 1,
                options.termFrequency := Some 12, options.repaymentFrequency := Some 1\<rparr>"

definition sub_period_engine :: LoanCalculatorEngine where
  "sub_period_engine =
     LoanCalculatorEngine_new annuity_math sub_period_options std_config"

text \<open>
  A context of a pay-off period: a balance of 100 at a tenth a period, of which 20 are
  offset, with a base repayment of 50, a lump sum of 80 and a fee of 5.
\<close>

definition payoff_context :: Context where
  "payoff_context =
     \<lparr>presentValue = 100, interestRate = 12 / 10, interestRateFrequency = 1,
      effInterestRate = 1 / 10, term = 1, termFrequency = 1, effTerm = 12, repayment = 50,
      repaymentType = principalAndInterest, repaymentFrequency = 12,
      effExtraRepayment = None, lumpSum = Some 80, offset = Some 20, fee = Some 5\<rparr>"

text \<open>The level loan without its fee.\<close>

definition level_engine_without_fee :: LoanCalculatorEngine where
  "level_engine_without_fee = level_engine\<lparr>operators := []\<rparr>"

text \<open>
  1000 at 120 percent a year (a tenth a month) over 2 months, with a fixed repayment of 1
  given by the user.
\<close>

definition small_repayment_options :: options where
  "small_repayment_options =
     no_options\<lparr>options.presentValue := Some 1000, options.interestRate := Some (12 / 10),
                options.term := Some 2, options.termFrequency := Some 12,
                options.repayment := Some 1\<rparr>"

definition small_repayment_engine :: LoanCalculatorEngine where
  "small_repayment_engine =
     LoanCalculatorEngine_new annuity_math small_repayment_options std_config"

text \<open>A principal of 0 at rate 0 over 3 months.\<close>

definition zero_principal_options :: options where
  "zero_principal_options =
     no_options\<lparr>options.presentValue := Some 0, options.term := Some 3,
                options.termFrequency := Some 12\<rparr>"

definition zero_principal_engine :: LoanCalculatorEngine where
  "zero_principal_engine =
     LoanCalculatorEngine_new annuity_math zero_principal_options std_config"

text \<open>A principal, a rate and a term that are all negative.\<close>

definition negative_options :: options where
  "negative_options =
     no_options\<lparr>options.presentValue := Some (- 1000),
                options.interestRate := Some (- 6 / 100), options.term := Some (- 10)\<rparr>"

text \<open>
  No term, and a fixed repayment: 400 on a principal of 1000 at rate 0 (two periods and a
  half), and - 2 on a principal of 5 at rate 0 (minus two periods and a half).
\<close>

definition derived_term_options :: options where
  "derived_term_options =
     no_options\<lparr>options.presentValue := Some 1000, options.repayment := Some 400\<rparr>"

definition negative_tie_options :: options where
  "negative_tie_options =
     no_options\<lparr>options.presentValue := Some 5, options.repayment := Some (- 2)\<rparr>"

text \<open>1000 at rate 0 over two months and a half, repaid monthly.\<close>

definition fractional_term_options :: options where
  "fractional_term_options =
     no_options\<lparr>options.presentValue := Some 1000, options.term := Some (5 / 2),
                options.termFrequency := Some 12\<rparr>"

definition fractional_term_engine :: LoanCalculatorEngine where
  "fractional_term_engine =
     LoanCalculatorEngine_new annuity_math fractional_term_options std_config"

section \<open>Properties of the settlement\<close>

lemma or0_eq: "or0 x = (case x of None \<Rightarrow> 0 | Some v \<Rightarrow> v)"
  by (cases x) simp_all

text \<open>
  Claim C1. For every period context the settlement is the one of the specification:
  the total repayment is the base repayment plus the extra repayment (or 0) plus the
  lump sum (or 0); the interest paid is the maximum of 0 and (presentValue - offset)
  times effInterestRate; a total above presentValue is clamped to presentValue plus the
  interest paid; principalPaid is that repayment minus the interest paid; futureValue is
  presentValue minus principalPaid; and the fee enters the reported repayment only,
  after principalPaid and futureValue are fixed.
\<close>

theorem calculateAmortization_settle_spec:
  "calculateAmortization c = settle_spec c"
  by (simp add: calculateAmortization_def settle_spec_def spec_capped_repayment_def
      spec_interestPaid_def spec_total_repayment_def Amortization_new_def or0_eq Let_def
      max.commute)

section \<open>What the loop returns\<close>

declare calculate_loop.simps [simp del]

lemma calculateContext_Some:
  "calculateContext M E p (Some prev) = Inr (decided_context M E p prev)"
  by (simp add: calculateContext_def decided_context_def Let_def)

lemma lodash_last_nonempty: "sl \<noteq> [] \<Longrightarrow> lodash_last sl = Some (last sl)"
  by (simp add: lodash_last_def)

lemma calculate_loop_step:
  "sl \<noteq> [] \<Longrightarrow> real p \<le> effTerm (base_context E) \<Longrightarrow>
   calculate_loop M E p sl =
     (if futureValue (amortization (next_item M E p (last sl))) \<le> 0
      then Inr (sl @ [next_item M E p (last sl)])
      else calculate_loop M E (Suc p) (sl @ [next_item M E p (last sl)]))"
  by (subst calculate_loop.simps)
     (simp add: lodash_last_nonempty calculateContext_Some next_item_def Let_def)

lemma calculate_loop_exit:
  "\<not> real p \<le> effTerm (base_context E) \<Longrightarrow> calculate_loop M E p sl = Inr sl"
  by (subst calculate_loop.simps) simp

lemma loop_measure:
  "real p \<le> x \<Longrightarrow> nat \<lceil>x\<rceil> + 1 - Suc p < nat \<lceil>x\<rceil> + 1 - p"
  by (simp add: Suc_diff_le le_nat_iff le_ceiling_iff)

lemma calculate_loop_follows:
  "sl \<noteq> [] \<Longrightarrow>
   \<exists>ext. calculate_loop M E p sl = Inr (sl @ ext)
        \<and> follows M E p (last sl) ext
        \<and> ((ext \<noteq> [] \<and> futureValue (amortization (last ext)) \<le> 0)
            \<or> \<not> real (p + length ext) \<le> effTerm (base_context E))"
proof (induction "nat \<lceil>effTerm (base_context E)\<rceil> + 1 - p" arbitrary: p sl rule: less_induct)
  case less
  let ?x = "next_item M E p (last sl)"
  show ?case
  proof (cases "real p \<le> effTerm (base_context E)")
    case False
    then have "calculate_loop M E p sl = Inr (sl @ [])"
      by (simp add: calculate_loop_exit)
    with False show ?thesis by (intro exI[of _ "[]"]) simp
  next
    case inrange: True
    show ?thesis
    proof (cases "futureValue (amortization ?x) \<le> 0")
      case True
      with inrange less.prems have "calculate_loop M E p sl = Inr (sl @ [?x])"
        by (simp add: calculate_loop_step)
      moreover have "follows M E p (last sl) [?x]"
        using inrange by simp
      ultimately show ?thesis using True by (intro exI[of _ "[?x]"]) simp
    next
      case False
      with inrange less.prems
      have step: "calculate_loop M E p sl = calculate_loop M E (Suc p) (sl @ [?x])"
        by (simp add: calculate_loop_step)
      from less.hyps[OF loop_measure[OF inrange], of "sl @ [?x]"]
      obtain ext where ext:
        "calculate_loop M E (Suc p) (sl @ [?x]) = Inr ((sl @ [?x]) @ ext)"
        "follows M E (Suc p) ?x ext"
        "(ext \<noteq> [] \<and> futureValue (amortization (last ext)) \<le> 0)
            \<or> \<not> real (Suc p + length ext) \<le> effTerm (base_context E)"
        by auto
      have "calculate_loop M E p sl = Inr (sl @ (?x # ext))"
        using step ext(1) by simp
      moreover have "follows M E p (last sl) (?x # ext)"
        using inrange False ext(2) by simp
      moreover have "(?x # ext \<noteq> [] \<and> futureValue (amortization (last (?x # ext))) \<le> 0)
            \<or> \<not> real (p + length (?x # ext)) \<le> effTerm (base_context E)"
        using ext(3) by auto
      ultimately show ?thesis by (intro exI[of _ "?x # ext"]) blast
    qed
  qed
qed

lemma follows_Cons:
  "follows M E p prev (x # xs) \<Longrightarrow> x = next_item M E p prev"
  "follows M E p prev (x # xs) \<Longrightarrow> real p \<le> effTerm (base_context E)"
  "follows M E p prev (x # xs) \<Longrightarrow> xs \<noteq> [] \<Longrightarrow> 0 < futureValue (amortization x)"
  "follows M E p prev (x # xs) \<Longrightarrow> follows M E (Suc p) x xs"
  unfolding follows.simps by blast+

lemma follows_nth:
  "follows M E p prev ext \<Longrightarrow> i < length ext \<Longrightarrow>
   ext ! i = next_item M E (p + i) ((prev # ext) ! i)
   \<and> real (p + i) \<le> effTerm (base_context E)
   \<and> (Suc i < length ext \<longrightarrow> 0 < futureValue (amortization (ext ! i)))"
proof (induction ext arbitrary: p prev i)
  case Nil
  then show ?case by simp
next
  case (Cons x xs)
  note f = follows_Cons[OF Cons.prems(1)]
  show ?case
  proof (cases i)
    case 0
    have "xs \<noteq> [] \<Longrightarrow> 0 < futureValue (amortization x)" by (rule f(3))
    with 0 f(1,2) show ?thesis by auto
  next
    case (Suc j)
    with Cons.prems have "j < length xs" by simp
    from Cons.IH[OF f(4) this] Suc show ?thesis by auto
  qed
qed

lemma period_next_item [simp]: "period (next_item M E p prev) = p"
  by (simp add: next_item_def)

lemma follows_periods:
  "follows M E p prev ext \<Longrightarrow> map period ext = [p..<p + length ext]"
proof (induction ext arbitrary: p prev)
  case Nil
  then show ?case by simp
next
  case (Cons x xs)
  note f = follows_Cons[OF Cons.prems]
  have "map period xs = [Suc p..<Suc p + length xs]"
    by (rule Cons.IH[OF f(4)])
  moreover have "period x = p"
    by (simp add: f(1))
  ultimately have "map period (x # xs) = p # [Suc p..<Suc p + length xs]"
    by simp
  also have "\<dots> = [p..<p + length (x # xs)]"
    using upt_rec[of p "p + length (x # xs)"] by simp
  finally show ?case .
qed

lemma calculate_schedule_follows:
  "\<exists>ext. calculate_schedule M E (calculateInitialPeriod E []) = Inr (initial_item E # ext)
        \<and> follows M E 1 (initial_item E) ext
        \<and> ((ext \<noteq> [] \<and> futureValue (amortization (last ext)) \<le> 0)
            \<or> \<not> real (Suc (length ext)) \<le> effTerm (base_context E))"
  using calculate_loop_follows[of "[initial_item E]" M E 1]
  by (simp add: calculate_schedule_def calculateInitialPeriod_def initial_item_def
      context_get_def)

lemma calculate_follows:
  "\<exists>ext. calculate M E =
          Inr \<lparr>totals = foldl sum_totals (totals_view (amortization (initial_item E)))
                          (map amortization ext),
               scheduleList = initial_item E # ext\<rparr>
        \<and> follows M E 1 (initial_item E) ext
        \<and> ((ext \<noteq> [] \<and> futureValue (amortization (last ext)) \<le> 0)
            \<or> \<not> real (Suc (length ext)) \<le> effTerm (base_context E))"
proof -
  from calculate_schedule_follows[of M E] obtain ext where
    e: "calculate_schedule M E (calculateInitialPeriod E []) = Inr (initial_item E # ext)"
       "follows M E 1 (initial_item E) ext"
       "(ext \<noteq> [] \<and> futureValue (amortization (last ext)) \<le> 0)
            \<or> \<not> real (Suc (length ext)) \<le> effTerm (base_context E)"
    by blast
  have "calculate M E =
          Inr \<lparr>totals = foldl sum_totals (totals_view (amortization (initial_item E)))
                          (map amortization ext),
               scheduleList = initial_item E # ext\<rparr>"
    by (simp add: calculate_def e(1) calculateTotals_def)
  with e(2,3) show ?thesis by blast
qed

lemma schedule_nth:
  assumes "follows M E 1 (initial_item E) ext" and "1 \<le> i" and "i < length (initial_item E # ext)"
  shows "(initial_item E # ext) ! i = next_item M E i ((initial_item E # ext) ! (i - 1))"
    and "real i \<le> effTerm (base_context E)"
    and "Suc i < length (initial_item E # ext) \<Longrightarrow>
           0 < futureValue (amortization ((initial_item E # ext) ! i))"
proof -
  from assms obtain j where j: "i = Suc j" "j < length ext"
    by (cases i) auto
  from follows_nth[OF assms(1) j(2)] j
  show "(initial_item E # ext) ! i = next_item M E i ((initial_item E # ext) ! (i - 1))"
    and "real i \<le> effTerm (base_context E)"
    and "Suc i < length (initial_item E # ext) \<Longrightarrow>
           0 < futureValue (amortization ((initial_item E # ext) ! i))"
    by auto
qed

lemma schedule_periods:
  assumes "follows M E 1 (initial_item E) ext"
  shows "map period (initial_item E # ext) = [0..<length (initial_item E # ext)]"
proof -
  have "map period ext = [1..<1 + length ext]"
    using follows_periods[OF assms] .
  then have "map period (initial_item E # ext) = 0 # [1..<1 + length ext]"
    by (simp add: initial_item_def)
  also have "\<dots> = [0..<length (initial_item E # ext)]"
    using upt_rec[of 0 "length (initial_item E # ext)"] by simp
  finally show ?thesis .
qed

lemma process_presentValue: "presentValue (process M op p c) = presentValue c"
  by (cases "adjustment op") simp_all

declare process.simps [simp del]

lemma foldl_process_presentValue:
  "presentValue (foldl (\<lambda>c op. process M op p c) c ops) = presentValue c"
  by (induction ops arbitrary: c) (simp_all add: process_presentValue)

lemma processed_context_presentValue [simp]:
  "presentValue (processed_context M E p v) = v"
  by (simp add: processed_context_def foldl_process_presentValue)

lemma decided_context_presentValue [simp]:
  "presentValue (decided_context M E p prev) = futureValue (amortization prev)"
  by (simp add: decided_context_def Let_def)

lemma decided_context_repayment:
  "Context.repayment (decided_context M E p prev) =
     amended_decideRepayment M p (decided_context M E p prev) (context prev)"
  by (auto simp add: decided_context_def amended_decideRepayment_def calculateRepayment_def
      Let_def)

lemma next_item_sel [simp]:
  "context (next_item M E p prev) = decided_context M E p prev"
  "amortization (next_item M E p prev) = calculateAmortization (decided_context M E p prev)"
  by (simp_all add: next_item_def)

section \<open>Properties of the schedule\<close>

text \<open>
  Claim C10. In every schedule that \<^verbatim>\<open>calculate()\<close> produces the items are numbered
  consecutively from 0 (the i-th item has period i); for every item of period at least 1
  the present value of its context is the future value of the item just before it; and
  the future value of the item of period 0 is the present value of the base context.
  The calculation returns (it does not throw).
\<close>

theorem presentValue_chained:
  "\<exists>res. calculate M E = Inr res
     \<and> map period (scheduleList res) = [0..<length (scheduleList res)]
     \<and> (\<forall>i. 1 \<le> i \<and> i < length (scheduleList res) \<longrightarrow>
           presentValue (context (scheduleList res ! i))
             = futureValue (amortization (scheduleList res ! (i - 1))))
     \<and> futureValue (amortization (scheduleList res ! 0)) = presentValue (base_context E)"
proof -
  from calculate_follows[of M E] obtain ext res where
    res: "calculate M E = Inr res" "scheduleList res = initial_item E # ext"
    and f: "follows M E 1 (initial_item E) ext"
    by force
  have "map period (scheduleList res) = [0..<length (scheduleList res)]"
    using schedule_periods[OF f] res(2) by simp
  moreover have "presentValue (context (scheduleList res ! i))
             = futureValue (amortization (scheduleList res ! (i - 1)))"
    if "1 \<le> i \<and> i < length (scheduleList res)" for i
    using schedule_nth(1)[OF f, of i] that res(2) by simp
  moreover have "futureValue (amortization (scheduleList res ! 0)) = presentValue (base_context E)"
    by (simp add: res(2) initial_item_def)
  ultimately show ?thesis using res(1) by blast
qed

text \<open>
  Claim C2, as amended. For every period p from 1 on, the base repayment of the item's
  context is recomputed exactly when the repayment of the previous item's context is 0
  (\<^verbatim>\<open>!prevRepayment\<close>; for period 1 the previous context is the base context, so a
  fixed repayment given by the user is carried over, not recomputed) or the effective
  rate of the context differs from the previous context's; otherwise the previous
  context's repayment is carried over unchanged. When recomputed, the repayment is
  presentValue times effInterestRate for an interest-only loan, and otherwise
  \<^verbatim>\<open>pmt(presentValue, effInterestRate, effTerm - p + 1)\<close>.
\<close>

theorem repayment_decided:
  "\<exists>res. calculate M E = Inr res
     \<and> (\<forall>i. 1 \<le> i \<and> i < length (scheduleList res) \<longrightarrow>
           Context.repayment (context (scheduleList res ! i))
             = amended_decideRepayment M i (context (scheduleList res ! i))
                 (context (scheduleList res ! (i - 1))))"
proof -
  from calculate_follows[of M E] obtain ext res where
    res: "calculate M E = Inr res" "scheduleList res = initial_item E # ext"
    and f: "follows M E 1 (initial_item E) ext"
    by force
  have "Context.repayment (context (scheduleList res ! i))
             = amended_decideRepayment M i (context (scheduleList res ! i))
                 (context (scheduleList res ! (i - 1)))"
    if "1 \<le> i \<and> i < length (scheduleList res)" for i
    using schedule_nth(1)[OF f, of i] that res(2) decided_context_repayment by simp
  then show ?thesis using res(1) by blast
qed

lemma foldl_sum_totals:
  "foldl sum_totals t as =
     \<lparr>repayment = Totals.repayment t + sum_list (map Amortization.repayment as),
      interestPaid = Totals.interestPaid t + sum_list (map Amortization.interestPaid as)\<rparr>"
  by (induction as arbitrary: t) (simp_all add: sum_totals_def add.assoc)

lemma follows_running:
  "follows M E p prev ext \<Longrightarrow> 1 \<le> p \<Longrightarrow> filter (\<lambda>e. 1 \<le> period e) ext = ext"
proof -
  assume f: "follows M E p prev ext" and p: "1 \<le> p"
  have "\<forall>e \<in> set ext. 1 \<le> period e"
  proof
    fix e assume "e \<in> set ext"
    then have "period e \<in> set (map period ext)" by simp
    then have "period e \<in> set [p..<p + length ext]"
      using follows_periods[OF f] by simp
    with p show "1 \<le> period e" by simp
  qed
  then show ?thesis by simp
qed

text \<open>
  Claim C4. Every run of \<^verbatim>\<open>calculate()\<close> returns, and its totals are the sums of
  \<^verbatim>\<open>repayment\<close> and of \<^verbatim>\<open>interestPaid\<close> over the items of period at least 1; the
  item of period 0 is the first one and contributes nothing (both fields are 0 there);
  the reduction never runs on an empty list, and a schedule without an item of period at
  least 1 has totals 0 and 0.
\<close>

theorem totals_are_sums:
  "\<exists>res. calculate M E = Inr res
     \<and> Totals.repayment (totals res) =
         sum_list (map (\<lambda>e. Amortization.repayment (amortization e))
                     (filter (\<lambda>e. 1 \<le> period e) (scheduleList res)))
     \<and> Totals.interestPaid (totals res) =
         sum_list (map (\<lambda>e. Amortization.interestPaid (amortization e))
                     (filter (\<lambda>e. 1 \<le> period e) (scheduleList res)))
     \<and> period (hd (scheduleList res)) = 0
     \<and> Amortization.repayment (amortization (hd (scheduleList res))) = 0
     \<and> Amortization.interestPaid (amortization (hd (scheduleList res))) = 0
     \<and> (filter (\<lambda>e. 1 \<le> period e) (scheduleList res) = [] \<longrightarrow>
           totals res = \<lparr>repayment = 0, interestPaid = 0\<rparr>)"
proof -
  from calculate_follows[of M E] obtain ext res where
    res: "calculate M E = Inr res" "scheduleList res = initial_item E # ext"
      "totals res = foldl sum_totals (totals_view (amortization (initial_item E)))
                          (map amortization ext)"
    and f: "follows M E 1 (initial_item E) ext"
    by force
  have run: "filter (\<lambda>e. 1 \<le> period e) (scheduleList res) = ext"
    using follows_running[OF f] by (simp add: res(2) initial_item_def)
  have t: "totals res =
     \<lparr>repayment = sum_list (map (\<lambda>e. Amortization.repayment (amortization e)) ext),
      interestPaid = sum_list (map (\<lambda>e. Amortization.interestPaid (amortization e)) ext)\<rparr>"
    by (simp add: res(3) foldl_sum_totals totals_view_def initial_item_def
        Amortization_new_def comp_def)
  have hd0: "period (hd (scheduleList res)) = 0"
    "Amortization.repayment (amortization (hd (scheduleList res))) = 0"
    "Amortization.interestPaid (amortization (hd (scheduleList res))) = 0"
    by (simp_all add: res(2) initial_item_def Amortization_new_def)
  have r: "Totals.repayment (totals res) =
         sum_list (map (\<lambda>e. Amortization.repayment (amortization e))
                     (filter (\<lambda>e. 1 \<le> period e) (scheduleList res)))"
    unfolding run t by simp
  have i: "Totals.interestPaid (totals res) =
         sum_list (map (\<lambda>e. Amortization.interestPaid (amortization e))
                     (filter (\<lambda>e. 1 \<le> period e) (scheduleList res)))"
    unfolding run t by simp
  have z: "totals res = \<lparr>repayment = 0, interestPaid = 0\<rparr>"
    if "filter (\<lambda>e. 1 \<le> period e) (scheduleList res) = []"
    using that unfolding run t by simp
  show ?thesis
    using res(1) hd0 r i z by (intro exI[of _ res]) blast
qed

text \<open>
  Claim C3, as amended. Every run of \<^verbatim>\<open>calculate()\<close> returns a schedule whose periods
  are 0, 1, 2, ... in order; every period from 1 on that it holds is at most effTerm; no
  item but the last has a future value at most 0; and at the last item either its future
  value is at most 0 (and it is an item of the loop) or the next period is past effTerm.
  Consequently the period of the last item is the least period from 1 on whose future
  value is at most 0 if there is one, and otherwise the number of whole periods in
  effTerm (the floor of effTerm, and 0 when effTerm is below 1), which is effTerm itself
  when effTerm is a whole number of periods.
\<close>

theorem loop_stops:
  "\<exists>res. calculate M E = Inr res
     \<and> map period (scheduleList res) = [0..<length (scheduleList res)]
     \<and> (\<forall>i. 1 \<le> i \<and> i < length (scheduleList res) \<longrightarrow> real i \<le> effTerm (base_context E))
     \<and> (\<forall>i. 1 \<le> i \<and> Suc i < length (scheduleList res) \<longrightarrow>
           0 < futureValue (amortization (scheduleList res ! i)))
     \<and> ((2 \<le> length (scheduleList res)
          \<and> futureValue (amortization (last (scheduleList res))) \<le> 0)
         \<or> \<not> real (length (scheduleList res)) \<le> effTerm (base_context E))
     \<and> ((\<exists>i. 1 \<le> i \<and> i < length (scheduleList res)
               \<and> futureValue (amortization (scheduleList res ! i)) \<le> 0) \<longrightarrow>
           period (last (scheduleList res)) =
             (LEAST i. 1 \<le> i \<and> i < length (scheduleList res)
                       \<and> futureValue (amortization (scheduleList res ! i)) \<le> 0))
     \<and> (\<not> (\<exists>i. 1 \<le> i \<and> i < length (scheduleList res)
               \<and> futureValue (amortization (scheduleList res ! i)) \<le> 0) \<longrightarrow>
           period (last (scheduleList res)) = nat \<lfloor>effTerm (base_context E)\<rfloor>
           \<and> (\<forall>N. effTerm (base_context E) = real N \<longrightarrow>
                  real (period (last (scheduleList res))) = effTerm (base_context E)))"
proof -
  from calculate_follows[of M E] obtain ext res where
    res: "calculate M E = Inr res" "scheduleList res = initial_item E # ext"
    and f: "follows M E 1 (initial_item E) ext"
    and stop: "(ext \<noteq> [] \<and> futureValue (amortization (last ext)) \<le> 0)
            \<or> \<not> real (Suc (length ext)) \<le> effTerm (base_context E)"
    by force
  let ?sl = "scheduleList res"
  let ?T = "effTerm (base_context E)"
  let ?paid = "\<lambda>i. 1 \<le> i \<and> i < length ?sl \<and> futureValue (amortization (?sl ! i)) \<le> 0"
  have len: "length ?sl = Suc (length ext)" by (simp add: res(2))
  have per: "map period ?sl = [0..<length ?sl]"
    using schedule_periods[OF f] res(2) by simp
  have ne: "?sl \<noteq> []" by (simp add: res(2))
  have lastp: "period (last ?sl) = length ext"
  proof -
    have "period (last ?sl) = last (map period ?sl)"
      using ne by (simp add: last_map)
    also have "\<dots> = length ext" unfolding per len by simp
    finally show ?thesis .
  qed
  have inrange: "real i \<le> ?T" if "1 \<le> i \<and> i < length ?sl" for i
    using schedule_nth(2)[OF f, of i] that res(2) by simp
  have pos: "0 < futureValue (amortization (?sl ! i))" if "1 \<le> i \<and> Suc i < length ?sl" for i
    using schedule_nth(3)[OF f, of i] that res(2) by simp
  have stop': "(2 \<le> length ?sl \<and> futureValue (amortization (last ?sl)) \<le> 0)
                \<or> \<not> real (length ?sl) \<le> ?T"
    using stop by (auto simp: res(2) Suc_le_eq)
  have paid_last: "i = length ext" if "?paid i" for i
  proof (rule ccontr)
    assume "i \<noteq> length ext"
    with that len have "Suc i < length ?sl" by simp
    with pos[of i] that show False by simp
  qed
  have least: "period (last ?sl) = (LEAST i. ?paid i)" if "\<exists>i. ?paid i"
  proof -
    from that obtain i where i: "?paid i" by blast
    with paid_last have pl: "?paid (length ext)" by blast
    have "(LEAST i. ?paid i) = length ext"
    proof (rule Least_equality)
      show "?paid (length ext)" by (rule pl)
    next
      fix y
      assume "?paid y"
      then have "y = length ext" by (rule paid_last)
      then show "length ext \<le> y" by simp
    qed
    with lastp show ?thesis by simp
  qed
  have nopay: "period (last ?sl) = nat \<lfloor>?T\<rfloor>" if np: "\<not> (\<exists>i. ?paid i)"
  proof -
    have past: "\<not> real (Suc (length ext)) \<le> ?T"
    proof (cases "ext = []")
      case True
      with stop show ?thesis by simp
    next
      case False
      then have "1 \<le> length ext" by (cases ext) simp_all
      moreover have "?sl ! length ext = last ext"
        using False by (simp add: res(2) last_conv_nth nth_Cons')
      ultimately have "?paid (length ext)"
        if "futureValue (amortization (last ext)) \<le> 0"
        using that len by simp
      with np stop show ?thesis by blast
    qed
    show ?thesis
    proof (cases "ext = []")
      case True
      with past have "?T < 1" by simp
      then have "\<lfloor>?T\<rfloor> \<le> 0" by linarith
      with True lastp show ?thesis by simp
    next
      case False
      then have "real (length ext) \<le> ?T"
        using inrange[of "length ext"] len by (cases ext) simp_all
      with past have "\<lfloor>?T\<rfloor> = int (length ext)" by linarith
      with lastp show ?thesis by simp
    qed
  qed
  have whole: "real (period (last ?sl)) = ?T"
    if "\<not> (\<exists>i. ?paid i)" "?T = real N" for N
    using nopay[OF that(1)] that(2) by simp
  show ?thesis
    using res(1) per inrange pos stop' least nopay whole
    by (intro exI[of _ res]) blast
qed

section \<open>The balance from one item to the next\<close>

lemma settle_non_increasing:
  assumes "0 \<le> presentValue c"
    and "Amortization.interestPaid (calculateAmortization c)
           \<le> Context.repayment c + or0 (effExtraRepayment c) + or0 (lumpSum c)"
  shows "futureValue (calculateAmortization c) \<le> presentValue c"
  using assms
  by (auto simp add: calculateAmortization_def Amortization_new_def Let_def max_def
      split: if_splits)

lemma process_nonneg:
  assumes "nonneg_adjustment M (repaymentFrequency c) (adjustment op)" and "nonneg_context c"
  shows "nonneg_context (process M op p c)"
    and "repaymentFrequency (process M op p c) = repaymentFrequency c"
    and "effTerm (process M op p c) = effTerm c"
  using assms
  by (cases "adjustment op"; simp add: process.simps nonneg_adjustment_def nonneg_context_def)+

lemma foldl_process_nonneg:
  assumes "\<forall>op \<in> set ops. nonneg_adjustment M (repaymentFrequency c) (adjustment op)"
    and "nonneg_context c"
  shows "nonneg_context (foldl (\<lambda>c op. process M op p c) c ops)
         \<and> effTerm (foldl (\<lambda>c op. process M op p c) c ops) = effTerm c"
  using assms
proof (induction ops arbitrary: c)
  case Nil
  then show ?case by simp
next
  case (Cons op ops)
  from Cons.prems have a: "nonneg_adjustment M (repaymentFrequency c) (adjustment op)"
    by simp
  note pr = process_nonneg[OF a Cons.prems(2), of p]
  have "\<forall>op' \<in> set ops.
          nonneg_adjustment M (repaymentFrequency (process M op p c)) (adjustment op')"
    using Cons.prems(1) by (simp add: pr(2))
  from Cons.IH[OF this pr(1)] show ?case by (simp add: pr(3))
qed

lemma processed_context_nonneg:
  assumes "\<forall>op \<in> set (operators E).
             nonneg_adjustment M (repaymentFrequency (base_context E)) (adjustment op)"
    and "nonneg_context (base_context E)"
  shows "nonneg_context (processed_context M E p v)"
    and "effTerm (processed_context M E p v) = effTerm (base_context E)"
proof -
  let ?c0 = "(base_context E)\<lparr>presentValue := v\<rparr>"
  have "\<forall>op \<in> set (getOperatorsAt E p).
          nonneg_adjustment M (repaymentFrequency ?c0) (adjustment op)"
    using assms(1) by (simp add: getOperatorsAt_def)
  moreover have "nonneg_context ?c0"
    using assms(2) by (simp add: nonneg_context_def)
  ultimately have "nonneg_context (foldl (\<lambda>c op. process M op p c) ?c0 (getOperatorsAt E p))
         \<and> effTerm (foldl (\<lambda>c op. process M op p c) ?c0 (getOperatorsAt E p)) = effTerm ?c0"
    by (rule foldl_process_nonneg)
  then show "nonneg_context (processed_context M E p v)"
    and "effTerm (processed_context M E p v) = effTerm (base_context E)"
    by (simp_all add: processed_context_def context_get_def)
qed

lemma interestPaid_le:
  assumes "nonneg_context c" and "0 \<le> presentValue c"
  shows "Amortization.interestPaid (calculateAmortization c)
           \<le> presentValue c * effInterestRate c"
proof -
  from assms have r: "0 \<le> effInterestRate c" and o: "0 \<le> or0 (offset c)"
    by (simp_all add: nonneg_context_def)
  have "(presentValue c - or0 (offset c)) * effInterestRate c
          \<le> presentValue c * effInterestRate c"
    using r o by (intro mult_right_mono) simp_all
  moreover have "0 \<le> presentValue c * effInterestRate c"
    using assms(2) r by simp
  ultimately show ?thesis
    by (simp add: calculateAmortization_def Amortization_new_def Let_def)
qed

lemma next_item_covers:
  assumes ops: "\<forall>op \<in> set (operators E).
             nonneg_adjustment M (repaymentFrequency (base_context E)) (adjustment op)"
    and base: "nonneg_context (base_context E)"
    and pmt: "\<forall>pv r n. 0 \<le> pv \<and> 0 \<le> r \<and> 1 \<le> n \<longrightarrow> pv * r \<le> pmt M pv r n"
    and prev: "repayment_covers_interest prev"
    and pv: "0 \<le> futureValue (amortization prev)"
    and p: "real p \<le> effTerm (base_context E)"
  shows "futureValue (amortization (next_item M E p prev)) \<le> futureValue (amortization prev)"
    and "repayment_covers_interest (next_item M E p prev)"
proof -
  let ?v = "futureValue (amortization prev)"
  let ?c = "processed_context M E p ?v"
  let ?d = "decided_context M E p prev"
  note nn = processed_context_nonneg[OF ops base, of p ?v]
  from nn(1) have r: "0 \<le> effInterestRate ?c" by (simp add: nonneg_context_def)
  have cpv: "presentValue ?c = ?v" by simp
  have rec: "?v * effInterestRate ?c \<le> calculateRepayment M p ?c"
  proof (cases "repaymentType ?c = interestOnly")
    case True
    then show ?thesis by (simp add: calculateRepayment_def Let_def)
  next
    case False
    have "1 \<le> effTerm ?c - real p + 1" using p nn(2) by simp
    with pmt pv r have "?v * effInterestRate ?c
                          \<le> CalculatorEngineMath.pmt M ?v (effInterestRate ?c) (effTerm ?c - real p + 1)"
      by blast
    with False show ?thesis by (simp add: calculateRepayment_def Let_def)
  qed
  have fields: "presentValue ?d = ?v" "effInterestRate ?d = effInterestRate ?c"
    "effExtraRepayment ?d = effExtraRepayment ?c" "lumpSum ?d = lumpSum ?c"
    "offset ?d = offset ?c"
    by (simp_all add: decided_context_def Let_def)
  have cov: "?v * effInterestRate ?d \<le> Context.repayment ?d"
  proof (cases "Context.repayment (context prev) = 0
                 \<or> effInterestRate (context prev) \<noteq> effInterestRate ?c")
    case True
    then have "Context.repayment ?d = calculateRepayment M p ?c"
      by (auto simp add: decided_context_def Let_def)
    with rec show ?thesis by (simp add: fields)
  next
    case False
    then have "Context.repayment ?d = Context.repayment (context prev)"
      by (auto simp add: decided_context_def Let_def)
    moreover from False prev
    have "?v * effInterestRate ?c \<le> Context.repayment (context prev)"
      by (auto simp add: repayment_covers_interest_def)
    ultimately show ?thesis by (simp add: fields)
  qed
  have nd: "nonneg_context ?d"
    using nn(1) by (simp add: nonneg_context_def fields)
  have dpv: "0 \<le> presentValue ?d" using pv by (simp add: fields)
  have "Amortization.interestPaid (calculateAmortization ?d)
          \<le> presentValue ?d * effInterestRate ?d"
    by (rule interestPaid_le[OF nd dpv])
  also have "\<dots> \<le> Context.repayment ?d" using cov by (simp add: fields)
  also have "\<dots> \<le> Context.repayment ?d + or0 (effExtraRepayment ?d) + or0 (lumpSum ?d)"
    using nd by (simp add: nonneg_context_def)
  finally have "futureValue (calculateAmortization ?d) \<le> presentValue ?d"
    by (rule settle_non_increasing[OF dpv])
  then show le: "futureValue (amortization (next_item M E p prev)) \<le> ?v"
    by (simp add: fields)
  have "futureValue (amortization (next_item M E p prev)) * effInterestRate ?d
          \<le> ?v * effInterestRate ?d"
    using le r by (intro mult_right_mono) (simp_all add: fields)
  with cov show "repayment_covers_interest (next_item M E p prev)"
    using r by (simp add: repayment_covers_interest_def fields)
qed

lemma follows_non_increasing:
  assumes ops: "\<forall>op \<in> set (operators E).
             nonneg_adjustment M (repaymentFrequency (base_context E)) (adjustment op)"
    and base: "nonneg_context (base_context E)"
    and pmt: "\<forall>pv r n. 0 \<le> pv \<and> 0 \<le> r \<and> 1 \<le> n \<longrightarrow> pv * r \<le> pmt M pv r n"
  shows "follows M E p prev ext \<Longrightarrow> repayment_covers_interest prev \<Longrightarrow>
         0 \<le> futureValue (amortization prev) \<Longrightarrow> i < length ext \<Longrightarrow>
         futureValue (amortization (ext ! i)) \<le> futureValue (amortization ((prev # ext) ! i))"
proof (induction ext arbitrary: p prev i)
  case Nil
  then show ?case by simp
next
  case (Cons x xs)
  note f = follows_Cons[OF Cons.prems(1)]
  note step = next_item_covers[OF ops base pmt Cons.prems(2,3) f(2), folded f(1)]
  show ?case
  proof (cases i)
    case 0
    with step(1) show ?thesis by simp
  next
    case (Suc j)
    with Cons.prems(4) have j: "j < length xs" by simp
    then have "xs \<noteq> []" by auto
    then have "0 \<le> futureValue (amortization x)" using f(3) by simp
    from Cons.IH[OF f(4) step(2) this j] Suc show ?thesis by simp
  qed
qed

text \<open>
  Claim C5, as amended. For every schedule produced from inputs that are not negative
  (the principal, the effective rate of the base context and of every rate change, and
  every offset, extra repayment and lump sum), with a fixed repayment that is absent (0)
  or at least the principal times the effective rate, and with a payment formula that
  returns at least the interest of the period (\<^verbatim>\<open>pmt(pv, r, n) >= pv * r\<close> for a
  balance and a rate that are not negative and at least one period left), the future
  value of every item of period at least 1 is at most the future value of the item
  before it.
\<close>

theorem futureValue_non_increasing:
  assumes "0 \<le> presentValue (base_context E)"
    and "0 \<le> effInterestRate (base_context E)"
    and "0 \<le> or0 (effExtraRepayment (base_context E))"
    and "0 \<le> or0 (lumpSum (base_context E))"
    and "0 \<le> or0 (offset (base_context E))"
    and "\<forall>op \<in> set (operators E).
           nonneg_adjustment M (repaymentFrequency (base_context E)) (adjustment op)"
    and "Context.repayment (base_context E) = 0
         \<or> presentValue (base_context E) * effInterestRate (base_context E)
             \<le> Context.repayment (base_context E)"
    and "\<forall>pv r n. 0 \<le> pv \<and> 0 \<le> r \<and> 1 \<le> n \<longrightarrow> pv * r \<le> pmt M pv r n"
  shows "\<exists>res. calculate M E = Inr res
     \<and> (\<forall>i. 1 \<le> i \<and> i < length (scheduleList res) \<longrightarrow>
           futureValue (amortization (scheduleList res ! i))
             \<le> futureValue (amortization (scheduleList res ! (i - 1))))"
proof -
  from calculate_follows[of M E] obtain ext res where
    res: "calculate M E = Inr res" "scheduleList res = initial_item E # ext"
    and f: "follows M E 1 (initial_item E) ext"
    by force
  have base: "nonneg_context (base_context E)"
    using assms(2-5) by (simp add: nonneg_context_def)
  have init: "repayment_covers_interest (initial_item E)"
    using assms(2,7) by (simp add: repayment_covers_interest_def initial_item_def)
  have pv0: "0 \<le> futureValue (amortization (initial_item E))"
    using assms(1) by (simp add: initial_item_def)
  have "futureValue (amortization (scheduleList res ! i))
             \<le> futureValue (amortization (scheduleList res ! (i - 1)))"
    if "1 \<le> i \<and> i < length (scheduleList res)" for i
  proof -
    from that obtain j where j: "i = Suc j" "j < length ext"
      by (cases i) (auto simp: res(2))
    from follows_non_increasing[OF assms(6) base assms(8) f init pv0 j(2)]
    show ?thesis by (simp add: res(2) j(1))
  qed
  then show ?thesis using res(1) by (intro exI[of _ res]) blast
qed

section \<open>A fee is cash flow only\<close>

lemma same_but_fee_refl [simp]: "same_but_fee c c"
  by (simp add: same_but_fee_def)

lemma same_but_fee_fields:
  assumes "same_but_fee c c'"
  shows "presentValue c = presentValue c'"
    and "effInterestRate c = effInterestRate c'"
    and "effTerm c = effTerm c'"
    and "Context.repayment c = Context.repayment c'"
    and "repaymentType c = repaymentType c'"
    and "repaymentFrequency c = repaymentFrequency c'"
    and "effExtraRepayment c = effExtraRepayment c'"
    and "lumpSum c = lumpSum c'"
    and "offset c = offset c'"
proof -
  from assms have e: "c\<lparr>fee := None\<rparr> = c'\<lparr>fee := None\<rparr>"
    by (simp add: same_but_fee_def)
  from arg_cong[OF e, of presentValue] show "presentValue c = presentValue c'" by simp
  from arg_cong[OF e, of effInterestRate] show "effInterestRate c = effInterestRate c'" by simp
  from arg_cong[OF e, of effTerm] show "effTerm c = effTerm c'" by simp
  from arg_cong[OF e, of Context.repayment]
  show "Context.repayment c = Context.repayment c'" by simp
  from arg_cong[OF e, of repaymentType] show "repaymentType c = repaymentType c'" by simp
  from arg_cong[OF e, of repaymentFrequency]
  show "repaymentFrequency c = repaymentFrequency c'" by simp
  from arg_cong[OF e, of effExtraRepayment]
  show "effExtraRepayment c = effExtraRepayment c'" by simp
  from arg_cong[OF e, of lumpSum] show "lumpSum c = lumpSum c'" by simp
  from arg_cong[OF e, of offset] show "offset c = offset c'" by simp
qed

lemma process_same_but_fee:
  assumes "same_but_fee c c'"
  shows "same_but_fee (process M op p c) (process M op p c')"
proof -
  from assms have e: "c\<lparr>fee := None\<rparr> = c'\<lparr>fee := None\<rparr>"
    by (simp add: same_but_fee_def)
  have comm: "(process M op p d)\<lparr>fee := None\<rparr> = process M op p (d\<lparr>fee := None\<rparr>)\<lparr>fee := None\<rparr>"
    for d
    by (cases "adjustment op") (simp_all add: process.simps)
  show ?thesis
    unfolding same_but_fee_def by (subst comm, subst (2) comm) (simp only: e)
qed

lemma process_Fee_same_but_fee:
  "adjustment op = Fee f \<Longrightarrow> same_but_fee c c' \<Longrightarrow> same_but_fee (process M op p c) c'"
  by (simp add: process.simps same_but_fee_def)

lemma foldl_process_same_but_fee:
  "same_but_fee c c' \<Longrightarrow>
   same_but_fee (foldl (\<lambda>c op. process M op p c) c ops)
                (foldl (\<lambda>c op. process M op p c) c' ops)"
  by (induction ops arbitrary: c c') (simp_all add: process_same_but_fee)

lemma processed_context_same_but_fee:
  assumes "operators E = xs @ op # ys" and "adjustment op = Fee f"
    and "E' = E\<lparr>operators := xs @ ys\<rparr>"
  shows "same_but_fee (processed_context M E p v) (processed_context M E' p v)"
proof -
  let ?P = "\<lambda>op. startPeriod op \<le> p \<and> p \<le> endPeriod op"
  let ?g = "\<lambda>c op. process M op p c"
  let ?c0 = "(base_context E)\<lparr>presentValue := v\<rparr>"
  let ?c1 = "foldl ?g ?c0 (filter ?P xs)"
  have "same_but_fee (foldl ?g ?c1 (filter ?P [op])) ?c1"
    using assms(2) by (simp add: process_Fee_same_but_fee)
  then have "same_but_fee (foldl ?g (foldl ?g ?c1 (filter ?P [op])) (filter ?P ys))
               (foldl ?g ?c1 (filter ?P ys))"
    by (rule foldl_process_same_but_fee)
  moreover have "processed_context M E p v
                   = foldl ?g (foldl ?g ?c1 (filter ?P [op])) (filter ?P ys)"
  proof -
    have "operators E = xs @ [op] @ ys" using assms(1) by simp
    then show ?thesis
      unfolding processed_context_def getOperatorsAt_def context_get_def
      by (simp only: filter_append foldl_append)
  qed
  moreover have "processed_context M E' p v = foldl ?g ?c1 (filter ?P ys)"
    unfolding processed_context_def getOperatorsAt_def context_get_def assms(3)
    by (simp add: foldl_append)
  ultimately show ?thesis by simp
qed

lemma processed_context_inactive:
  assumes "operators E = xs @ op # ys" and "\<not> active op p"
    and "E' = E\<lparr>operators := xs @ ys\<rparr>"
  shows "processed_context M E p v = processed_context M E' p v"
  using assms(2)
  unfolding processed_context_def getOperatorsAt_def context_get_def assms(1,3) active_def
  by auto

lemma calculateRepayment_same_but_fee:
  "same_but_fee c c' \<Longrightarrow> calculateRepayment M p c = calculateRepayment M p c'"
  by (simp add: calculateRepayment_def same_but_fee_fields Let_def)

lemma calculateAmortization_same_but_fee:
  assumes "same_but_fee c c'"
  shows "Amortization.interestPaid (calculateAmortization c)
           = Amortization.interestPaid (calculateAmortization c')"
    and "principalPaid (calculateAmortization c) = principalPaid (calculateAmortization c')"
    and "futureValue (calculateAmortization c) = futureValue (calculateAmortization c')"
    and "Amortization.repayment (calculateAmortization c) - or0 (fee c)
           = Amortization.repayment (calculateAmortization c') - or0 (fee c')"
  by (simp_all add: calculateAmortization_def Amortization_new_def Let_def
      same_but_fee_fields[OF assms])

lemma decided_context_same_but_fee:
  assumes "operators E = xs @ op # ys" and "adjustment op = Fee f"
    and "E' = E\<lparr>operators := xs @ ys\<rparr>"
    and "same_but_fee_item prev prev'"
  shows "same_but_fee (decided_context M E p prev) (decided_context M E' p prev')"
proof -
  from assms(4) have fv: "futureValue (amortization prev) = futureValue (amortization prev')"
    and sc: "same_but_fee (context prev) (context prev')"
    by (simp_all add: same_but_fee_item_def)
  let ?c = "processed_context M E p (futureValue (amortization prev))"
  let ?c' = "processed_context M E' p (futureValue (amortization prev'))"
  have s: "same_but_fee ?c ?c'"
    unfolding fv by (rule processed_context_same_but_fee[OF assms(1-3)])
  have upd: "same_but_fee (d\<lparr>Context.repayment := r\<rparr>) (d'\<lparr>Context.repayment := r\<rparr>)"
    if "same_but_fee d d'" for d d' r
  proof -
    have comm: "(x\<lparr>Context.repayment := r\<rparr>)\<lparr>fee := None\<rparr>
                  = (x\<lparr>fee := None\<rparr>)\<lparr>Context.repayment := r\<rparr>" for x :: Context
      by (cases x) simp
    from that have "d\<lparr>fee := None\<rparr> = d'\<lparr>fee := None\<rparr>" by (simp add: same_but_fee_def)
    then show ?thesis unfolding same_but_fee_def comm by (rule arg_cong)
  qed
  show ?thesis
    unfolding decided_context_def Let_def
    using upd[OF s]
    by (simp add: same_but_fee_fields[OF sc] same_but_fee_fields[OF s]
        calculateRepayment_same_but_fee[OF s])
qed

lemma next_item_without_fee:
  assumes "operators E = xs @ op # ys" and "adjustment op = Fee f"
    and "E' = E\<lparr>operators := xs @ ys\<rparr>"
    and "without_fee op prev prev'"
  shows "without_fee op (next_item M E p prev) (next_item M E' p prev')"
proof -
  from assms(4) have item: "same_but_fee_item prev prev'"
    by (simp add: without_fee_def)
  then have fv: "futureValue (amortization prev) = futureValue (amortization prev')"
    and sc: "same_but_fee (context prev) (context prev')"
    by (simp_all add: same_but_fee_item_def)
  have d: "same_but_fee (decided_context M E p prev) (decided_context M E' p prev')"
    by (rule decided_context_same_but_fee[OF assms(1-3) item])
  have "same_but_fee_item (next_item M E p prev) (next_item M E' p prev')"
    unfolding same_but_fee_item_def
    using d calculateAmortization_same_but_fee[OF d] by simp
  moreover have "next_item M E p prev = next_item M E' p prev'" if "\<not> active op p"
  proof -
    have "processed_context M E p (futureValue (amortization prev))
            = processed_context M E' p (futureValue (amortization prev'))"
      unfolding fv by (rule processed_context_inactive[OF assms(1) that assms(3)])
    then have "decided_context M E p prev = decided_context M E' p prev'"
      by (simp add: decided_context_def Let_def same_but_fee_fields[OF sc])
    then show ?thesis by (simp add: next_item_def)
  qed
  ultimately show ?thesis by (simp add: without_fee_def)
qed

lemma list_all2_last:
  "list_all2 R xs ys \<Longrightarrow> xs \<noteq> [] \<Longrightarrow> R (last xs) (last ys)"
  by (induction rule: list_all2_induct) (auto dest: list_all2_lengthD)

lemma calculate_loop_without_fee:
  assumes "operators E = xs @ op # ys" and "adjustment op = Fee f"
    and "E' = E\<lparr>operators := xs @ ys\<rparr>"
  shows "sl \<noteq> [] \<Longrightarrow> list_all2 (without_fee op) sl sl' \<Longrightarrow>
         \<exists>r r'. calculate_loop M E p sl = Inr r \<and> calculate_loop M E' p sl' = Inr r'
               \<and> list_all2 (without_fee op) r r'"
proof (induction "nat \<lceil>effTerm (base_context E)\<rceil> + 1 - p" arbitrary: p sl sl' rule: less_induct)
  case less
  have base: "base_context E' = base_context E" by (simp add: assms(3))
  from less.prems have ne': "sl' \<noteq> []" by auto
  let ?x = "next_item M E p (last sl)"
  let ?x' = "next_item M E' p (last sl')"
  show ?case
  proof (cases "real p \<le> effTerm (base_context E)")
    case False
    then have "calculate_loop M E p sl = Inr sl" "calculate_loop M E' p sl' = Inr sl'"
      by (simp_all add: calculate_loop_exit base)
    with less.prems(2) show ?thesis by simp
  next
    case inrange: True
    have "without_fee op (last sl) (last sl')"
      by (rule list_all2_last[OF less.prems(2,1)])
    then have x: "without_fee op ?x ?x'"
      by (rule next_item_without_fee[OF assms])
    then have fv: "futureValue (amortization ?x) = futureValue (amortization ?x')"
      by (simp add: without_fee_def same_but_fee_item_def)
    have ext: "list_all2 (without_fee op) (sl @ [?x]) (sl' @ [?x'])"
      using less.prems(2) x by (simp add: list_all2_appendI)
    show ?thesis
    proof (cases "futureValue (amortization ?x) \<le> 0")
      case True
      then have "calculate_loop M E p sl = Inr (sl @ [?x])"
        "calculate_loop M E' p sl' = Inr (sl' @ [?x'])"
        using inrange less.prems(1) ne' fv
        by (simp_all add: calculate_loop_step base)
      with ext show ?thesis by simp
    next
      case False
      then have "calculate_loop M E p sl = calculate_loop M E (Suc p) (sl @ [?x])"
        "calculate_loop M E' p sl' = calculate_loop M E' (Suc p) (sl' @ [?x'])"
        using inrange less.prems(1) ne' fv
        by (simp_all add: calculate_loop_step base)
      moreover from less.hyps[OF loop_measure[OF inrange] _ ext]
      have "\<exists>r r'. calculate_loop M E (Suc p) (sl @ [?x]) = Inr r
                 \<and> calculate_loop M E' (Suc p) (sl' @ [?x']) = Inr r'
                 \<and> list_all2 (without_fee op) r r'"
        by simp
      ultimately show ?thesis by simp
    qed
  qed
qed

lemma calculate_scheduleList:
  "calculate M E = Inr res \<Longrightarrow>
   calculate_loop M E 1 [initial_item E] = Inr (scheduleList res)"
  by (auto simp: calculate_def calculate_schedule_def calculateInitialPeriod_def
      initial_item_def context_get_def split: sum.splits)

lemma list_all2_map_eq:
  "list_all2 R xs ys \<Longrightarrow> (\<And>x y. R x y \<Longrightarrow> f x = g y) \<Longrightarrow> map f xs = map g ys"
  by (induction rule: list_all2_induct) simp_all

text \<open>
  Claim C6. For every engine and every fee operator among its operators, the run with
  the operator and the run without it return schedules with the same periods and, item
  by item, the same interestPaid, principalPaid and futureValue; the contexts differ at
  most in the field \<^verbatim>\<open>fee\<close>; the reported repayment is the same once the fee of each
  context is taken off; and an item of a period where the operator is not active is the
  same in both runs.
\<close>

theorem fee_changes_repayment_only:
  assumes "operators E = xs @ op # ys" and "adjustment op = Fee f"
    and "E' = E\<lparr>operators := xs @ ys\<rparr>"
  shows "\<exists>res res'. calculate M E = Inr res \<and> calculate M E' = Inr res'
     \<and> map period (scheduleList res) = map period (scheduleList res')
     \<and> map (\<lambda>e. Amortization.interestPaid (amortization e)) (scheduleList res)
         = map (\<lambda>e. Amortization.interestPaid (amortization e)) (scheduleList res')
     \<and> map (\<lambda>e. principalPaid (amortization e)) (scheduleList res)
         = map (\<lambda>e. principalPaid (amortization e)) (scheduleList res')
     \<and> map (\<lambda>e. futureValue (amortization e)) (scheduleList res)
         = map (\<lambda>e. futureValue (amortization e)) (scheduleList res')
     \<and> map (\<lambda>e. (context e)\<lparr>fee := None\<rparr>) (scheduleList res)
         = map (\<lambda>e. (context e)\<lparr>fee := None\<rparr>) (scheduleList res')
     \<and> map (\<lambda>e. Amortization.repayment (amortization e) - or0 (fee (context e)))
           (scheduleList res)
         = map (\<lambda>e. Amortization.repayment (amortization e) - or0 (fee (context e)))
             (scheduleList res')
     \<and> (\<forall>i. i < length (scheduleList res) \<and> \<not> (startPeriod op \<le> i \<and> i \<le> endPeriod op)
            \<longrightarrow> scheduleList res ! i = scheduleList res' ! i)"
proof -
  have init: "initial_item E' = initial_item E"
    by (simp add: initial_item_def assms(3))
  have "list_all2 (without_fee op) [initial_item E] [initial_item E']"
    by (simp add: init without_fee_def same_but_fee_item_def)
  from calculate_loop_without_fee[OF assms _ this, of M 1]
  obtain sl sl' where
    l: "calculate_loop M E 1 [initial_item E] = Inr sl"
       "calculate_loop M E' 1 [initial_item E'] = Inr sl'"
    and rel: "list_all2 (without_fee op) sl sl'"
    by auto
  from calculate_follows[of M E] obtain res ext where
    res: "calculate M E = Inr res" and sch: "scheduleList res = initial_item E # ext"
    and f: "follows M E 1 (initial_item E) ext"
    by force
  from calculate_follows[of M E'] obtain res' where
    res': "calculate M E' = Inr res'"
    by force
  have sl: "scheduleList res = sl"
    using calculate_scheduleList[OF res] l(1) by simp
  have sl': "scheduleList res' = sl'"
    using calculate_scheduleList[OF res'] l(2) by simp
  have per: "map period sl = [0..<length sl]"
    using schedule_periods[OF f] sch sl by simp
  have m1: "map period sl = map period sl'"
    by (rule list_all2_map_eq[OF rel]) (simp add: without_fee_def same_but_fee_item_def)
  have m2: "map (\<lambda>e. Amortization.interestPaid (amortization e)) sl
         = map (\<lambda>e. Amortization.interestPaid (amortization e)) sl'"
    by (rule list_all2_map_eq[OF rel]) (simp add: without_fee_def same_but_fee_item_def)
  have m3: "map (\<lambda>e. principalPaid (amortization e)) sl
         = map (\<lambda>e. principalPaid (amortization e)) sl'"
    by (rule list_all2_map_eq[OF rel]) (simp add: without_fee_def same_but_fee_item_def)
  have m4: "map (\<lambda>e. futureValue (amortization e)) sl
         = map (\<lambda>e. futureValue (amortization e)) sl'"
    by (rule list_all2_map_eq[OF rel]) (simp add: without_fee_def same_but_fee_item_def)
  have m5: "map (\<lambda>e. (context e)\<lparr>fee := None\<rparr>) sl = map (\<lambda>e. (context e)\<lparr>fee := None\<rparr>) sl'"
    by (rule list_all2_map_eq[OF rel])
       (simp add: without_fee_def same_but_fee_item_def same_but_fee_def)
  have m6: "map (\<lambda>e. Amortization.repayment (amortization e) - or0 (fee (context e))) sl
         = map (\<lambda>e. Amortization.repayment (amortization e) - or0 (fee (context e))) sl'"
    by (rule list_all2_map_eq[OF rel]) (simp add: without_fee_def same_but_fee_item_def)
  have m7: "sl ! i = sl' ! i"
    if "i < length sl \<and> \<not> (startPeriod op \<le> i \<and> i \<le> endPeriod op)" for i
  proof -
    from that have i: "i < length sl" by simp
    have "period (sl ! i) = i"
      using arg_cong[OF per, of "\<lambda>l. l ! i"] i by simp
    moreover have "without_fee op (sl ! i) (sl' ! i)"
      using rel i by (simp add: list_all2_conv_all_nth)
    ultimately show ?thesis using that by (simp add: without_fee_def active_def)
  qed
  show ?thesis
    using res res' m1 m2 m3 m4 m5 m6 m7
    unfolding sl[symmetric] sl'[symmetric]
    by (intro exI[of _ res] exI[of _ res'] conjI allI impI) (assumption | simp)+
qed

section \<open>A principal of 0\<close>

lemma settle_zero_principal:
  assumes "presentValue c = 0" and "0 \<le> Context.repayment c"
    and "effExtraRepayment c = None" and "lumpSum c = None"
    and "offset c = None" and "fee c = None"
  shows "calculateAmortization c = Amortization_new"
  using assms
  by (simp add: calculateAmortization_def Amortization_new_def Let_def)

text \<open>
  Claim C7, as amended. For a loan with principal 0, without adjustments, with a fixed
  repayment that is not negative and a payment formula that gives 0 for a principal of
  0, \<^verbatim>\<open>calculate()\<close> returns the initial item alone when effTerm is below 1, and
  otherwise the initial item followed by exactly one item, of period 1; every
  amortization of the schedule has all its fields 0, and the totals are 0 and 0.
\<close>

theorem zero_principal_schedule:
  assumes "presentValue (base_context E) = 0"
    and "operators E = []"
    and "effExtraRepayment (base_context E) = None" and "lumpSum (base_context E) = None"
    and "offset (base_context E) = None" and "fee (base_context E) = None"
    and "0 \<le> Context.repayment (base_context E)"
    and "pmt M 0 (effInterestRate (base_context E)) (effTerm (base_context E)) = 0"
  shows "\<exists>res. calculate M E = Inr res
     \<and> map period (scheduleList res)
         = (if 1 \<le> effTerm (base_context E) then [0, 1] else [0])
     \<and> map amortization (scheduleList res)
         = (if 1 \<le> effTerm (base_context E) then [Amortization_new, Amortization_new]
            else [Amortization_new])
     \<and> totals res = \<lparr>repayment = 0, interestPaid = 0\<rparr>"
proof -
  let ?b = "base_context E"
  let ?x = "next_item M E (Suc 0) (initial_item E)"
  have init: "amortization (initial_item E) = Amortization_new" "period (initial_item E) = 0"
    by (simp_all add: initial_item_def assms(1) Amortization_new_def)
  have proc: "processed_context M E p 0 = ?b" for p
    using assms(1)
    by (simp add: processed_context_def getOperatorsAt_def context_get_def assms(2))
  have dec: "decided_context M E p (initial_item E)
               = ?b\<lparr>Context.repayment :=
                     (if Context.repayment ?b = 0 then calculateRepayment M p ?b
                      else Context.repayment ?b)\<rparr>" for p
    by (simp add: decided_context_def initial_item_def assms(1) proc Let_def)
  have rec: "calculateRepayment M (Suc 0) ?b = 0"
    by (simp add: calculateRepayment_def Let_def assms(1,8))
  have am: "amortization ?x = Amortization_new"
  proof -
    have "calculateAmortization (decided_context M E (Suc 0) (initial_item E)) = Amortization_new"
      unfolding dec[of "Suc 0"] by (rule settle_zero_principal) (use assms rec in auto)
    then show ?thesis by simp
  qed
  show ?thesis
  proof (cases "1 \<le> effTerm ?b")
    case False
    then have "calculate_loop M E (Suc 0) [initial_item E] = Inr [initial_item E]"
      by (simp add: calculate_loop_exit)
    then have "calculate M E =
                 Inr \<lparr>totals = totals_view Amortization_new, scheduleList = [initial_item E]\<rparr>"
      by (simp add: calculate_def calculate_schedule_def calculateInitialPeriod_def
          context_get_def initial_item_def[symmetric] calculateTotals_def init)
    with False show ?thesis
      by (simp add: init totals_view_def Amortization_new_def)
  next
    case True
    have "futureValue (amortization ?x) \<le> 0"
      by (simp only: am) (simp add: Amortization_new_def)
    with True have "calculate_loop M E (Suc 0) [initial_item E] = Inr [initial_item E, ?x]"
      using calculate_loop_step[of "[initial_item E]" "Suc 0" E M] by simp
    then have "calculate M E =
                 Inr \<lparr>totals = sum_totals (totals_view Amortization_new) Amortization_new,
                      scheduleList = [initial_item E, ?x]\<rparr>"
      by (simp add: calculate_def calculate_schedule_def calculateInitialPeriod_def
          context_get_def initial_item_def[symmetric] calculateTotals_def init am
          del: next_item_sel)
    with True show ?thesis
      by (simp add: init am totals_view_def sum_totals_def Amortization_new_def
          del: next_item_sel)
  qed
qed

section \<open>Construction\<close>

text \<open>
  Claim C8, as amended. The construction of the engine has no failing branch: for every
  options object, also one with a negative principal, rate or term, it returns an engine
  whose base context holds the principal and the rate as given (0 when not given), and
  the term as given when a term other than 0 is given; no value is clamped.
\<close>

theorem construction_keeps_values:
  "presentValue (base_context (LoanCalculatorEngine_new M opts cfg))
     = (case options.presentValue opts of None \<Rightarrow> 0 | Some v \<Rightarrow> v)
   \<and> interestRate (base_context (LoanCalculatorEngine_new M opts cfg))
     = (case options.interestRate opts of None \<Rightarrow> 0 | Some v \<Rightarrow> v)
   \<and> (\<forall>t. options.term opts = Some t \<and> t \<noteq> 0 \<longrightarrow>
          term (base_context (LoanCalculatorEngine_new M opts cfg)) = t)
   \<and> operators (LoanCalculatorEngine_new M opts cfg) = []"
  by (simp add: LoanCalculatorEngine_new_def Context_new_def normalizeValues_def
      merge_defaults_def Let_def)

lemma Math_round_nonneg:
  "0 \<le> x \<Longrightarrow> Math_round x = round_half_away_from_zero x"
  by (cases "x = 0") (simp_all add: Math_round_def round_half_away_from_zero_def)

text \<open>
  Claim C9, as amended. For every context constructed without a term (the term is absent
  or 0), the term is \<^verbatim>\<open>nper(presentValue, effInterestRate, repayment)\<close> rounded to the
  nearest whole period with a tie going up, towards plus infinity (the floor of the value
  plus one half), which is rounding half away from zero whenever the value is not
  negative; and effTerm is the frequency normalisation of that term.
\<close>

theorem derived_term_rounded:
  assumes "options.term opts = None \<or> options.term opts = Some 0"
  shows "term (Context_new M opts cfg)
           = of_int \<lfloor>nper M (presentValue (Context_new M opts cfg))
                        (effInterestRate (Context_new M opts cfg))
                        (Context.repayment (Context_new M opts cfg)) + 1 / 2\<rfloor>
     \<and> (0 \<le> nper M (presentValue (Context_new M opts cfg))
               (effInterestRate (Context_new M opts cfg))
               (Context.repayment (Context_new M opts cfg)) \<longrightarrow>
          term (Context_new M opts cfg)
            = round_half_away_from_zero
                (nper M (presentValue (Context_new M opts cfg))
                   (effInterestRate (Context_new M opts cfg))
                   (Context.repayment (Context_new M opts cfg))))
     \<and> effTerm (Context_new M opts cfg)
           = CalculatorEngineMath.effTerm M (term (Context_new M opts cfg))
               (termFrequency (Context_new M opts cfg))
               (repaymentFrequency (Context_new M opts cfg))"
proof -
  have t0: "term (merge_defaults cfg opts) = 0"
    using assms by (auto simp: merge_defaults_def)
  let ?c = "Context_new M opts cfg"
  let ?n = "nper M (presentValue ?c) (effInterestRate ?c) (Context.repayment ?c)"
  have t: "term ?c = Math_round ?n"
    by (simp add: Context_new_def normalizeValues_def Let_def t0)
  have e: "effTerm ?c
           = CalculatorEngineMath.effTerm M (term ?c) (termFrequency ?c) (repaymentFrequency ?c)"
    by (simp add: Context_new_def normalizeValues_def Let_def)
  from t have "term ?c = of_int \<lfloor>?n + 1 / 2\<rfloor>" by (simp add: Math_round_def)
  moreover from t have "term ?c = round_half_away_from_zero ?n" if "0 \<le> ?n"
    using Math_round_nonneg[OF that] by simp
  ultimately show ?thesis using e by blast
qed

section \<open>Evaluation of the concrete loans\<close>

lemmas eval_defs =
  calculate_def calculate_schedule_def calculate_loop.simps calculateInitialPeriod_def
  context_get_def calculateContext_def lodash_last_def processed_context_def getOperatorsAt_def
  process.simps calculateRepayment_def calculateAmortization_def Amortization_new_def
  calculateTotals_def totals_view_def sum_totals_def Let_def
  LoanCalculatorEngine_new_def Context_new_def normalizeValues_def merge_defaults_def
  Math_round_def annuity_math_def std_config_def no_options_def
  interestOnly_def principalAndInterest_def

text \<open>
  The schedules of the concrete loans, field by field: for each item its period, the
  present value, the effective rate, the base repayment and the adjustment fields of its
  context, and the fields of its amortization.
\<close>

lemma level_engine_eval:
  "\<exists>res. calculate annuity_math level_engine = Inr res
     \<and> totals res = \<lparr>repayment = 1010, interestPaid = 0\<rparr>
     \<and> map period (scheduleList res) = [0, 1, 2, 3]
     \<and> map (\<lambda>e. presentValue (context e)) (scheduleList res) = [1000, 1000, 2000 / 3, 1000 / 3]
     \<and> map (\<lambda>e. effInterestRate (context e)) (scheduleList res) = [0, 0, 0, 0]
     \<and> map (\<lambda>e. Context.repayment (context e)) (scheduleList res) = [0, 1000 / 3, 1000 / 3, 1000 / 3]
     \<and> map (\<lambda>e. effExtraRepayment (context e)) (scheduleList res) = [None, None, None, None]
     \<and> map (\<lambda>e. lumpSum (context e)) (scheduleList res) = [None, None, None, None]
     \<and> map (\<lambda>e. fee (context e)) (scheduleList res) = [None, None, Some 10, None]
     \<and> map (\<lambda>e. Amortization.repayment (amortization e)) (scheduleList res) = [0, 1000 / 3, 1030 / 3, 1000 / 3]
     \<and> map (\<lambda>e. Amortization.interestPaid (amortization e)) (scheduleList res) = [0, 0, 0, 0]
     \<and> map (\<lambda>e. principalPaid (amortization e)) (scheduleList res) = [0, 1000 / 3, 1000 / 3, 1000 / 3]
     \<and> map (\<lambda>e. futureValue (amortization e)) (scheduleList res) = [1000, 2000 / 3, 1000 / 3, 0]"
  by (simp add: eval_defs level_engine_def level_options_def)

lemma level_engine_without_fee_eval:
  "\<exists>res. calculate annuity_math level_engine_without_fee = Inr res
     \<and> totals res = \<lparr>repayment = 1000, interestPaid = 0\<rparr>
     \<and> map period (scheduleList res) = [0, 1, 2, 3]
     \<and> map (\<lambda>e. presentValue (context e)) (scheduleList res) = [1000, 1000, 2000 / 3, 1000 / 3]
     \<and> map (\<lambda>e. effInterestRate (context e)) (scheduleList res) = [0, 0, 0, 0]
     \<and> map (\<lambda>e. Context.repayment (context e)) (scheduleList res) = [0, 1000 / 3, 1000 / 3, 1000 / 3]
     \<and> map (\<lambda>e. effExtraRepayment (context e)) (scheduleList res) = [None, None, None, None]
     \<and> map (\<lambda>e. lumpSum (context e)) (scheduleList res) = [None, None, None, None]
     \<and> map (\<lambda>e. fee (context e)) (scheduleList res) = [None, None, None, None]
     \<and> map (\<lambda>e. Amortization.repayment (amortization e)) (scheduleList res) = [0, 1000 / 3, 1000 / 3, 1000 / 3]
     \<and> map (\<lambda>e. Amortization.interestPaid (amortization e)) (scheduleList res) = [0, 0, 0, 0]
     \<and> map (\<lambda>e. principalPaid (amortization e)) (scheduleList res) = [0, 1000 / 3, 1000 / 3, 1000 / 3]
     \<and> map (\<lambda>e. futureValue (amortization e)) (scheduleList res) = [1000, 2000 / 3, 1000 / 3, 0]"
  by (simp add: eval_defs level_engine_without_fee_def level_engine_def level_options_def)

lemma interest_only_engine_eval:
  "\<exists>res. calculate annuity_math interest_only_engine = Inr res
     \<and> totals res = \<lparr>repayment = 1050, interestPaid = 50\<rparr>
     \<and> map period (scheduleList res) = [0, 1, 2, 3]
     \<and> map (\<lambda>e. presentValue (context e)) (scheduleList res) = [1000, 1000, 1000, 1000]
     \<and> map (\<lambda>e. effInterestRate (context e)) (scheduleList res) = [1 / 100, 1 / 100, 1 / 50, 1 / 50]
     \<and> map (\<lambda>e. Context.repayment (context e)) (scheduleList res) = [0, 10, 20, 20]
     \<and> map (\<lambda>e. effExtraRepayment (context e)) (scheduleList res) = [None, None, None, None]
     \<and> map (\<lambda>e. lumpSum (context e)) (scheduleList res) = [None, None, None, Some 1000]
     \<and> map (\<lambda>e. fee (context e)) (scheduleList res) = [None, None, None, None]
     \<and> map (\<lambda>e. Amortization.repayment (amortization e)) (scheduleList res) = [0, 10, 20, 1020]
     \<and> map (\<lambda>e. Amortization.interestPaid (amortization e)) (scheduleList res) = [0, 10, 20, 20]
     \<and> map (\<lambda>e. principalPaid (amortization e)) (scheduleList res) = [0, 0, 0, 1000]
     \<and> map (\<lambda>e. futureValue (amortization e)) (scheduleList res) = [1000, 1000, 1000, 0]"
  by (simp add: eval_defs interest_only_engine_def interest_only_options_def)

lemma plain_interest_only_engine_eval:
  "\<exists>res. calculate annuity_math plain_interest_only_engine = Inr res
     \<and> totals res = \<lparr>repayment = 50, interestPaid = 50\<rparr>
     \<and> map period (scheduleList res) = [0, 1, 2, 3, 4, 5]
     \<and> map (\<lambda>e. presentValue (context e)) (scheduleList res) = [1000, 1000, 1000, 1000, 1000, 1000]
     \<and> map (\<lambda>e. effInterestRate (context e)) (scheduleList res) = [1 / 100, 1 / 100, 1 / 100, 1 / 100, 1 / 100, 1 / 100]
     \<and> map (\<lambda>e. Context.repayment (context e)) (scheduleList res) = [0, 10, 10, 10, 10, 10]
     \<and> map (\<lambda>e. effExtraRepayment (context e)) (scheduleList res) = [None, None, None, None, None, None]
     \<and> map (\<lambda>e. lumpSum (context e)) (scheduleList res) = [None, None, None, None, None, None]
     \<and> map (\<lambda>e. fee (context e)) (scheduleList res) = [None, None, None, None, None, None]
     \<and> map (\<lambda>e. Amortization.repayment (amortization e)) (scheduleList res) = [0, 10, 10, 10, 10, 10]
     \<and> map (\<lambda>e. Amortization.interestPaid (amortization e)) (scheduleList res) = [0, 10, 10, 10, 10, 10]
     \<and> map (\<lambda>e. principalPaid (amortization e)) (scheduleList res) = [0, 0, 0, 0, 0, 0]
     \<and> map (\<lambda>e. futureValue (amortization e)) (scheduleList res) = [1000, 1000, 1000, 1000, 1000, 1000]"
  by (simp add: eval_defs plain_interest_only_engine_def interest_only_options_def)

lemma sub_period_engine_eval:
  "\<exists>res. calculate annuity_math sub_period_engine = Inr res
     \<and> totals res = \<lparr>repayment = 0, interestPaid = 0\<rparr>
     \<and> map period (scheduleList res) = [0]
     \<and> map (\<lambda>e. presentValue (context e)) (scheduleList res) = [1000]
     \<and> map (\<lambda>e. effInterestRate (context e)) (scheduleList res) = [0]
     \<and> map (\<lambda>e. Context.repayment (context e)) (scheduleList res) = [0]
     \<and> map (\<lambda>e. effExtraRepayment (context e)) (scheduleList res) = [None]
     \<and> map (\<lambda>e. lumpSum (context e)) (scheduleList res) = [None]
     \<and> map (\<lambda>e. fee (context e)) (scheduleList res) = [None]
     \<and> map (\<lambda>e. Amortization.repayment (amortization e)) (scheduleList res) = [0]
     \<and> map (\<lambda>e. Amortization.interestPaid (amortization e)) (scheduleList res) = [0]
     \<and> map (\<lambda>e. principalPaid (amortization e)) (scheduleList res) = [0]
     \<and> map (\<lambda>e. futureValue (amortization e)) (scheduleList res) = [1000]"
  by (simp add: eval_defs sub_period_engine_def sub_period_options_def)

lemma plain_interest_only_effTerm:
  "effTerm (base_context plain_interest_only_engine) = 5"
  by (simp add: eval_defs plain_interest_only_engine_def interest_only_options_def)

lemma interest_only_effTerm: "effTerm (base_context interest_only_engine) = 5"
  by (simp add: eval_defs interest_only_engine_def interest_only_options_def)

lemma map_eq_nth:
  "map f xs = ys \<Longrightarrow> i < length ys \<Longrightarrow> f (xs ! i) = ys ! i"
  by (metis length_map nth_map)

lemma map_eq_length: "map f xs = ys \<Longrightarrow> length xs = length ys"
  by auto

text \<open>Claim C10 at the level loan, between periods 1 and 2.\<close>

theorem presentValue_chained_witness:
  "\<exists>res. calculate annuity_math level_engine = Inr res
     \<and> length (scheduleList res) = 4
     \<and> presentValue (context (scheduleList res ! 2))
         = futureValue (amortization (scheduleList res ! 1))
     \<and> futureValue (amortization (scheduleList res ! 1)) = 2000 / 3"
proof -
  from presentValue_chained[of annuity_math level_engine] obtain res where
    r: "calculate annuity_math level_engine = Inr res"
    and ch: "\<forall>i. 1 \<le> i \<and> i < length (scheduleList res) \<longrightarrow>
           presentValue (context (scheduleList res ! i))
             = futureValue (amortization (scheduleList res ! (i - 1)))"
    by blast
  from level_engine_eval r have
    fv: "map (\<lambda>e. futureValue (amortization e)) (scheduleList res)
           = [1000, 2000 / 3, 1000 / 3, 0]"
    by auto
  have len: "length (scheduleList res) = 4"
    using map_eq_length[OF fv] by simp
  have "futureValue (amortization (scheduleList res ! 1)) = 2000 / 3"
    using map_eq_nth[OF fv, of 1] by simp
  moreover have "presentValue (context (scheduleList res ! 2))
         = futureValue (amortization (scheduleList res ! 1))"
    using ch[rule_format, of 2] len by simp
  ultimately show ?thesis using r len by blast
qed

section \<open>The properties at the concrete loans\<close>

text \<open>
  Claim C1 at the pay-off context: the total of 130 exceeds the balance of 100 and is
  clamped to 100 plus the interest of 8; the fee of 5 is added last.
\<close>

theorem calculateAmortization_settle_spec_witness:
  "calculateAmortization payoff_context = settle_spec payoff_context
   \<and> calculateAmortization payoff_context
       = \<lparr>futureValue = 0, repayment = 113, interestPaid = 8, principalPaid = 100\<rparr>"
proof
  show e: "calculateAmortization payoff_context = settle_spec payoff_context"
    by (rule calculateAmortization_settle_spec)
  show "calculateAmortization payoff_context
       = \<lparr>futureValue = 0, repayment = 113, interestPaid = 8, principalPaid = 100\<rparr>"
    unfolding e
    by (simp add: settle_spec_def spec_capped_repayment_def spec_interestPaid_def
        spec_total_repayment_def payoff_context_def)
qed

text \<open>
  Claim C3 at the interest-only loan with a lump sum (paid off in period 3 of 5) and at
  the plain interest-only loan (never paid off: the last period is effTerm = 5).
\<close>

theorem loop_stops_witness:
  "(\<exists>res. calculate annuity_math interest_only_engine = Inr res
      \<and> map period (scheduleList res) = [0, 1, 2, 3]
      \<and> real 3 \<le> effTerm (base_context interest_only_engine)
      \<and> 0 < futureValue (amortization (scheduleList res ! 2))
      \<and> futureValue (amortization (last (scheduleList res))) \<le> 0
      \<and> period (last (scheduleList res)) =
           (LEAST i. 1 \<le> i \<and> i < length (scheduleList res)
                     \<and> futureValue (amortization (scheduleList res ! i)) \<le> 0)
      \<and> period (last (scheduleList res)) = 3)
   \<and> (\<exists>res. calculate annuity_math plain_interest_only_engine = Inr res
      \<and> map period (scheduleList res) = [0, 1, 2, 3, 4, 5]
      \<and> \<not> real (length (scheduleList res))
             \<le> effTerm (base_context plain_interest_only_engine)
      \<and> real (period (last (scheduleList res)))
           = effTerm (base_context plain_interest_only_engine))"
proof
  let ?E = interest_only_engine
  from loop_stops[of annuity_math ?E] obtain res where
    r: "calculate annuity_math ?E = Inr res"
    and ran: "\<forall>i. 1 \<le> i \<and> i < length (scheduleList res) \<longrightarrow> real i \<le> effTerm (base_context ?E)"
    and pos: "\<forall>i. 1 \<le> i \<and> Suc i < length (scheduleList res) \<longrightarrow>
           0 < futureValue (amortization (scheduleList res ! i))"
    and stop: "(2 \<le> length (scheduleList res)
          \<and> futureValue (amortization (last (scheduleList res))) \<le> 0)
         \<or> \<not> real (length (scheduleList res)) \<le> effTerm (base_context ?E)"
    and least: "(\<exists>i. 1 \<le> i \<and> i < length (scheduleList res)
               \<and> futureValue (amortization (scheduleList res ! i)) \<le> 0) \<longrightarrow>
           period (last (scheduleList res)) =
             (LEAST i. 1 \<le> i \<and> i < length (scheduleList res)
                       \<and> futureValue (amortization (scheduleList res ! i)) \<le> 0)"
    by blast
  from interest_only_engine_eval r have
    per: "map period (scheduleList res) = [0, 1, 2, 3]"
    and fv: "map (\<lambda>e. futureValue (amortization e)) (scheduleList res) = [1000, 1000, 1000, 0]"
    by auto
  have len: "length (scheduleList res) = 4"
    using map_eq_length[OF fv] by simp
  have a1: "real 3 \<le> effTerm (base_context ?E)" using ran[rule_format, of 3] len by simp
  have a2: "0 < futureValue (amortization (scheduleList res ! 2))"
    using pos[rule_format, of 2] len by simp
  have a3: "futureValue (amortization (last (scheduleList res))) \<le> 0"
    using stop len interest_only_effTerm by simp
  have "futureValue (amortization (scheduleList res ! 3)) \<le> 0"
    using map_eq_nth[OF fv, of 3] by simp
  with len have "\<exists>i. 1 \<le> i \<and> i < length (scheduleList res)
               \<and> futureValue (amortization (scheduleList res ! i)) \<le> 0"
    by (intro exI[of _ 3]) simp
  with least have a4: "period (last (scheduleList res)) =
             (LEAST i. 1 \<le> i \<and> i < length (scheduleList res)
                       \<and> futureValue (amortization (scheduleList res ! i)) \<le> 0)"
    by (rule mp)
  have "scheduleList res \<noteq> []" using len by auto
  then have "period (last (scheduleList res)) = last (map period (scheduleList res))"
    by (simp add: last_map)
  then have a5: "period (last (scheduleList res)) = 3"
    unfolding per by simp
  show "\<exists>res. calculate annuity_math ?E = Inr res
      \<and> map period (scheduleList res) = [0, 1, 2, 3]
      \<and> real 3 \<le> effTerm (base_context ?E)
      \<and> 0 < futureValue (amortization (scheduleList res ! 2))
      \<and> futureValue (amortization (last (scheduleList res))) \<le> 0
      \<and> period (last (scheduleList res)) =
           (LEAST i. 1 \<le> i \<and> i < length (scheduleList res)
                     \<and> futureValue (amortization (scheduleList res ! i)) \<le> 0)
      \<and> period (last (scheduleList res)) = 3"
    by (intro exI[of _ res] conjI) (fact r per a1 a2 a3 a4 a5)+
next
  let ?E = plain_interest_only_engine
  from loop_stops[of annuity_math ?E] obtain res where
    r: "calculate annuity_math ?E = Inr res"
    and stop: "(2 \<le> length (scheduleList res)
          \<and> futureValue (amortization (last (scheduleList res))) \<le> 0)
         \<or> \<not> real (length (scheduleList res)) \<le> effTerm (base_context ?E)"
    and nopay: "\<not> (\<exists>i. 1 \<le> i \<and> i < length (scheduleList res)
               \<and> futureValue (amortization (scheduleList res ! i)) \<le> 0) \<longrightarrow>
           period (last (scheduleList res)) = nat \<lfloor>effTerm (base_context ?E)\<rfloor>
           \<and> (\<forall>N. effTerm (base_context ?E) = real N \<longrightarrow>
                  real (period (last (scheduleList res))) = effTerm (base_context ?E))"
    by blast
  from plain_interest_only_engine_eval r have
    per: "map period (scheduleList res) = [0, 1, 2, 3, 4, 5]"
    and fv: "map (\<lambda>e. futureValue (amortization e)) (scheduleList res)
               = [1000, 1000, 1000, 1000, 1000, 1000]"
    by auto
  have len: "length (scheduleList res) = 6"
    using map_eq_length[OF fv] by simp
  have "futureValue (amortization (scheduleList res ! i)) = 1000" if "i < 6" for i
  proof -
    from that have "i \<in> {0, 1, 2, 3, 4, 5}" by auto
    then show ?thesis using map_eq_nth[OF fv, of i] by auto
  qed
  then have "\<not> (\<exists>i. 1 \<le> i \<and> i < length (scheduleList res)
               \<and> futureValue (amortization (scheduleList res ! i)) \<le> 0)"
    using len by auto
  with nopay plain_interest_only_effTerm[symmetric]
  have b1: "real (period (last (scheduleList res))) = effTerm (base_context ?E)"
    by (metis of_nat_numeral)
  have b2: "\<not> real (length (scheduleList res)) \<le> effTerm (base_context ?E)"
    using len plain_interest_only_effTerm by simp
  show "\<exists>res. calculate annuity_math ?E = Inr res
      \<and> map period (scheduleList res) = [0, 1, 2, 3, 4, 5]
      \<and> \<not> real (length (scheduleList res)) \<le> effTerm (base_context ?E)
      \<and> real (period (last (scheduleList res))) = effTerm (base_context ?E)"
    by (intro exI[of _ res] conjI) (fact r per b1 b2)+
qed

text \<open>
  Claim C3 as the specification states it fails when effTerm is not a whole number: a
  term of two months and a half gives the periods 0, 1, 2; no future value is at most 0,
  and the last period is 2, not effTerm = 5 / 2.
\<close>

theorem fractional_term_counterexample:
  "\<exists>res. calculate annuity_math fractional_term_engine = Inr res
     \<and> effTerm (base_context fractional_term_engine) = 5 / 2
     \<and> map period (scheduleList res) = [0, 1, 2]
     \<and> map (\<lambda>e. futureValue (amortization e)) (scheduleList res) = [1000, 600, 200]
     \<and> period (last (scheduleList res)) = 2
     \<and> real (period (last (scheduleList res))) \<noteq> effTerm (base_context fractional_term_engine)"
  by (simp add: eval_defs fractional_term_engine_def fractional_term_options_def)

text \<open>
  Claim C4 at the interest-only loan with a lump sum, and at the loan whose effective
  term is below one period (no item but the initial one).
\<close>

theorem totals_are_sums_witness:
  "(\<exists>res. calculate annuity_math interest_only_engine = Inr res
      \<and> Totals.repayment (totals res) = 10 + 20 + 1020
      \<and> Totals.interestPaid (totals res) = 10 + 20 + 20)
   \<and> (\<exists>res. calculate annuity_math sub_period_engine = Inr res
      \<and> filter (\<lambda>e. 1 \<le> period e) (scheduleList res) = []
      \<and> totals res = \<lparr>repayment = 0, interestPaid = 0\<rparr>)"
proof
  let ?E = interest_only_engine
  from totals_are_sums[of annuity_math ?E] obtain res where
    r: "calculate annuity_math ?E = Inr res"
    and rep: "Totals.repayment (totals res) =
         sum_list (map (\<lambda>e. Amortization.repayment (amortization e))
                     (filter (\<lambda>e. 1 \<le> period e) (scheduleList res)))"
    and int: "Totals.interestPaid (totals res) =
         sum_list (map (\<lambda>e. Amortization.interestPaid (amortization e))
                     (filter (\<lambda>e. 1 \<le> period e) (scheduleList res)))"
    by blast
  from interest_only_engine_eval r have
    per: "map period (scheduleList res) = [0, 1, 2, 3]"
    and ar: "map (\<lambda>e. Amortization.repayment (amortization e)) (scheduleList res)
               = [0, 10, 20, 1020]"
    and ai: "map (\<lambda>e. Amortization.interestPaid (amortization e)) (scheduleList res)
               = [0, 10, 20, 20]"
    by auto
  from per obtain e0 e1 e2 e3 where sl: "scheduleList res = [e0, e1, e2, e3]"
    "period e0 = 0" "period e1 = 1" "period e2 = 2" "period e3 = 3"
    by auto
  have "Totals.repayment (totals res) = 10 + 20 + 1020"
    using ar unfolding rep sl by (simp add: sl(2-))
  moreover have "Totals.interestPaid (totals res) = 10 + 20 + 20"
    using ai unfolding int sl by (simp add: sl(2-))
  ultimately show "\<exists>res. calculate annuity_math ?E = Inr res
      \<and> Totals.repayment (totals res) = 10 + 20 + 1020
      \<and> Totals.interestPaid (totals res) = 10 + 20 + 20"
    using r by blast
next
  let ?E = sub_period_engine
  from totals_are_sums[of annuity_math ?E] obtain res where
    r: "calculate annuity_math ?E = Inr res"
    and z: "filter (\<lambda>e. 1 \<le> period e) (scheduleList res) = [] \<longrightarrow>
           totals res = \<lparr>repayment = 0, interestPaid = 0\<rparr>"
    by blast
  from sub_period_engine_eval r have per: "map period (scheduleList res) = [0]"
    by auto
  then obtain e0 where "scheduleList res = [e0]" "period e0 = 0" by auto
  then have "filter (\<lambda>e. 1 \<le> period e) (scheduleList res) = []" by simp
  with z r show "\<exists>res. calculate annuity_math ?E = Inr res
      \<and> filter (\<lambda>e. 1 \<le> period e) (scheduleList res) = []
      \<and> totals res = \<lparr>repayment = 0, interestPaid = 0\<rparr>"
    by blast
qed

text \<open>
  Claim C2, as amended, at the interest-only loan: recomputed in period 2, where the rate
  changes, and carried over in period 3.
\<close>

theorem repayment_decided_witness:
  "\<exists>res. calculate annuity_math interest_only_engine = Inr res
     \<and> length (scheduleList res) = 4
     \<and> Context.repayment (context (scheduleList res ! 2))
         = amended_decideRepayment annuity_math 2 (context (scheduleList res ! 2))
             (context (scheduleList res ! 1))
     \<and> Context.repayment (context (scheduleList res ! 2)) = 20
     \<and> Context.repayment (context (scheduleList res ! 3))
         = Context.repayment (context (scheduleList res ! 2))"
proof -
  let ?E = interest_only_engine
  from repayment_decided[of annuity_math ?E] obtain res where
    r: "calculate annuity_math ?E = Inr res"
    and dec: "\<forall>i. 1 \<le> i \<and> i < length (scheduleList res) \<longrightarrow>
           Context.repayment (context (scheduleList res ! i))
             = amended_decideRepayment annuity_math i (context (scheduleList res ! i))
                 (context (scheduleList res ! (i - 1)))"
    by blast
  from interest_only_engine_eval r have
    rate: "map (\<lambda>e. effInterestRate (context e)) (scheduleList res)
             = [1 / 100, 1 / 100, 1 / 50, 1 / 50]"
    and rep: "map (\<lambda>e. Context.repayment (context e)) (scheduleList res) = [0, 10, 20, 20]"
    by auto
  have len: "length (scheduleList res) = 4"
    using map_eq_length[OF rep] by simp
  have d2: "Context.repayment (context (scheduleList res ! 2))
         = amended_decideRepayment annuity_math 2 (context (scheduleList res ! 2))
             (context (scheduleList res ! 1))"
    using dec[rule_format, of 2] len by simp
  have r2: "Context.repayment (context (scheduleList res ! 2)) = 20"
    using map_eq_nth[OF rep, of 2] by simp
  have "effInterestRate (context (scheduleList res ! 3))
          = effInterestRate (context (scheduleList res ! 2))"
    using map_eq_nth[OF rate, of 3] map_eq_nth[OF rate, of 2] by simp
  moreover have "Context.repayment (context (scheduleList res ! 3))
         = amended_decideRepayment annuity_math 3 (context (scheduleList res ! 3))
             (context (scheduleList res ! 2))"
    using dec[rule_format, of 3] len by simp
  ultimately have "Context.repayment (context (scheduleList res ! 3))
         = Context.repayment (context (scheduleList res ! 2))"
    using r2 by (simp add: amended_decideRepayment_def)
  with r len d2 r2 show ?thesis by blast
qed

text \<open>
  Claim C2 as the specification states it fails in the first period of a loan with a
  fixed repayment: the context of period 1 holds the 500 given by the user, where a
  recomputation gives 1000 / 3.
\<close>

theorem repayment_at_first_period_counterexample:
  "\<exists>res. calculate annuity_math fixed_repayment_engine = Inr res
     \<and> Context.repayment (context (scheduleList res ! 1)) = 500
     \<and> spec_decideRepayment annuity_math 1 (context (scheduleList res ! 1))
         (context (scheduleList res ! 0)) = 1000 / 3"
  by (simp add: eval_defs fixed_repayment_engine_def fixed_repayment_options_def
      level_options_def spec_decideRepayment_def)

text \<open>
  The annuity payment covers the interest of its period.
\<close>

lemma annuity_pmt_covers_interest:
  "\<forall>pv r n. 0 \<le> pv \<and> 0 \<le> r \<and> 1 \<le> n \<longrightarrow> pv * r \<le> pmt annuity_math pv r n"
proof (intro allI impI)
  fix pv r n :: real
  assume a: "0 \<le> pv \<and> 0 \<le> r \<and> 1 \<le> n"
  show "pv * r \<le> pmt annuity_math pv r n"
  proof (cases "r = 0")
    case True
    with a show ?thesis by (simp add: annuity_math_def)
  next
    case False
    with a have r: "0 < r" by simp
    let ?q = "(1 + r) powr (- n)"
    have "?q < 1"
      using r a by (simp add: powr_less_one)
    moreover have "0 < ?q" using r by simp
    ultimately have d: "0 < 1 - ?q" "1 - ?q \<le> 1" by simp_all
    have "pv * r * (1 - ?q) \<le> pv * r * 1"
      using a d(2) by (intro mult_left_mono) simp_all
    then have "pv * r \<le> pv * r / (1 - ?q)"
      using d(1) by (simp add: pos_le_divide_eq)
    with False show ?thesis by (simp add: annuity_math_def)
  qed
qed

text \<open>
  Claim C5, as amended, at the interest-only loan with a lump sum (no fixed repayment;
  the balance stays at 1000 and falls to 0 in period 3) and at the loan with a fixed
  repayment of 500 at rate 0 (500 is at least 1000 times 0; the balance falls from 1000
  to 500 to 0).
\<close>

theorem futureValue_non_increasing_witness:
  "0 \<le> presentValue (base_context interest_only_engine)
   \<and> 0 \<le> effInterestRate (base_context interest_only_engine)
   \<and> Context.repayment (base_context interest_only_engine) = 0
   \<and> nonneg_adjustment annuity_math
         (repaymentFrequency (base_context interest_only_engine)) (InterestRate (24 / 100) 1)
   \<and> nonneg_adjustment annuity_math
         (repaymentFrequency (base_context interest_only_engine)) (LumpSum 1000)
   \<and> (\<exists>res. calculate annuity_math interest_only_engine = Inr res
        \<and> map (\<lambda>e. futureValue (amortization e)) (scheduleList res)
            = [1000, 1000, 1000, 0]
        \<and> futureValue (amortization (scheduleList res ! 3))
            \<le> futureValue (amortization (scheduleList res ! (3 - 1))))
   \<and> presentValue (base_context fixed_repayment_engine)
         * effInterestRate (base_context fixed_repayment_engine)
       \<le> Context.repayment (base_context fixed_repayment_engine)
   \<and> (\<exists>res. calculate annuity_math fixed_repayment_engine = Inr res
        \<and> length (scheduleList res) = 3
        \<and> futureValue (amortization (scheduleList res ! 1))
            \<le> futureValue (amortization (scheduleList res ! (1 - 1)))
        \<and> futureValue (amortization (scheduleList res ! 2))
            \<le> futureValue (amortization (scheduleList res ! (2 - 1))))"
proof (intro conjI)
  let ?E = interest_only_engine
  note ev = eval_defs interest_only_engine_def interest_only_options_def
  show h1: "0 \<le> presentValue (base_context ?E)" by (simp add: ev)
  show h2: "0 \<le> effInterestRate (base_context ?E)" by (simp add: ev)
  have h3: "0 \<le> or0 (effExtraRepayment (base_context ?E))" by (simp add: ev)
  have h4: "0 \<le> or0 (lumpSum (base_context ?E))" by (simp add: ev)
  have h5: "0 \<le> or0 (offset (base_context ?E))" by (simp add: ev)
  show r0: "Context.repayment (base_context ?E) = 0" by (simp add: ev)
  show o1: "nonneg_adjustment annuity_math (repaymentFrequency (base_context ?E))
              (InterestRate (24 / 100) 1)"
    by (simp add: nonneg_adjustment_def ev)
  show o2: "nonneg_adjustment annuity_math (repaymentFrequency (base_context ?E))
              (LumpSum 1000)"
    by (simp add: nonneg_adjustment_def)
  have h6: "\<forall>op \<in> set (operators ?E).
              nonneg_adjustment annuity_math (repaymentFrequency (base_context ?E))
                (adjustment op)"
    using o1 o2 by (simp add: interest_only_engine_def)
  have h7: "Context.repayment (base_context ?E) = 0
            \<or> presentValue (base_context ?E) * effInterestRate (base_context ?E)
                \<le> Context.repayment (base_context ?E)"
    using r0 by simp
  from futureValue_non_increasing[OF h1 h2 h3 h4 h5 h6 h7 annuity_pmt_covers_interest]
  obtain res where
    r: "calculate annuity_math ?E = Inr res"
    and mono: "\<forall>i. 1 \<le> i \<and> i < length (scheduleList res) \<longrightarrow>
           futureValue (amortization (scheduleList res ! i))
             \<le> futureValue (amortization (scheduleList res ! (i - 1)))"
    by blast
  from interest_only_engine_eval r have
    fv: "map (\<lambda>e. futureValue (amortization e)) (scheduleList res) = [1000, 1000, 1000, 0]"
    by auto
  have len: "length (scheduleList res) = 4"
    using map_eq_length[OF fv] by simp
  have le: "futureValue (amortization (scheduleList res ! 3))
          \<le> futureValue (amortization (scheduleList res ! (3 - 1)))"
    using mono[rule_format, of 3] len by simp
  show "\<exists>res. calculate annuity_math ?E = Inr res
        \<and> map (\<lambda>e. futureValue (amortization e)) (scheduleList res)
            = [1000, 1000, 1000, 0]
        \<and> futureValue (amortization (scheduleList res ! 3))
            \<le> futureValue (amortization (scheduleList res ! (3 - 1)))"
    by (intro exI[of _ res] conjI) (fact r fv le)+
next
  let ?E = fixed_repayment_engine
  note ev = eval_defs fixed_repayment_engine_def fixed_repayment_options_def
    level_options_def
  have h1: "0 \<le> presentValue (base_context ?E)" by (simp add: ev)
  have h2: "0 \<le> effInterestRate (base_context ?E)" by (simp add: ev)
  have h3: "0 \<le> or0 (effExtraRepayment (base_context ?E))" by (simp add: ev)
  have h4: "0 \<le> or0 (lumpSum (base_context ?E))" by (simp add: ev)
  have h5: "0 \<le> or0 (offset (base_context ?E))" by (simp add: ev)
  have h6: "\<forall>op \<in> set (operators ?E).
              nonneg_adjustment annuity_math (repaymentFrequency (base_context ?E))
                (adjustment op)"
    by (simp add: ev)
  show c: "presentValue (base_context ?E) * effInterestRate (base_context ?E)
             \<le> Context.repayment (base_context ?E)"
    by (simp add: ev)
  then have h7: "Context.repayment (base_context ?E) = 0
            \<or> presentValue (base_context ?E) * effInterestRate (base_context ?E)
                \<le> Context.repayment (base_context ?E)"
    by simp
  from futureValue_non_increasing[OF h1 h2 h3 h4 h5 h6 h7 annuity_pmt_covers_interest]
  obtain res where
    r: "calculate annuity_math ?E = Inr res"
    and mono: "\<forall>i. 1 \<le> i \<and> i < length (scheduleList res) \<longrightarrow>
           futureValue (amortization (scheduleList res ! i))
             \<le> futureValue (amortization (scheduleList res ! (i - 1)))"
    by blast
  have len: "length (scheduleList res) = 3"
    using r by (auto simp add: ev)
  have le1: "futureValue (amortization (scheduleList res ! 1))
            \<le> futureValue (amortization (scheduleList res ! (1 - 1)))"
    using mono[rule_format, of 1] len by simp
  have le2: "futureValue (amortization (scheduleList res ! 2))
            \<le> futureValue (amortization (scheduleList res ! (2 - 1)))"
    using mono[rule_format, of 2] len by simp
  show "\<exists>res. calculate annuity_math ?E = Inr res
        \<and> length (scheduleList res) = 3
        \<and> futureValue (amortization (scheduleList res ! 1))
            \<le> futureValue (amortization (scheduleList res ! (1 - 1)))
        \<and> futureValue (amortization (scheduleList res ! 2))
            \<le> futureValue (amortization (scheduleList res ! (2 - 1)))"
    by (intro exI[of _ res] conjI) (fact r len le1 le2)+
qed

text \<open>
  Claim C5 as the specification states it fails at a loan whose inputs are all positive:
  a fixed repayment of 1 against an interest of 100 in period 1 makes the balance grow
  from 1000 to 1099.
\<close>

theorem futureValue_grows_counterexample:
  "\<exists>res. calculate annuity_math small_repayment_engine = Inr res
     \<and> presentValue (base_context small_repayment_engine) = 1000
     \<and> effInterestRate (base_context small_repayment_engine) = 1 / 10
     \<and> effTerm (base_context small_repayment_engine) = 2
     \<and> Context.repayment (base_context small_repayment_engine) = 1
     \<and> operators small_repayment_engine = []
     \<and> futureValue (amortization (scheduleList res ! 0)) = 1000
     \<and> futureValue (amortization (scheduleList res ! 1)) = 1099
     \<and> \<not> futureValue (amortization (scheduleList res ! 1))
           \<le> futureValue (amortization (scheduleList res ! 0))"
  by (simp add: eval_defs small_repayment_engine_def small_repayment_options_def)

text \<open>
  Claim C6 at the level loan, whose only operator is a fee of 10 in period 2: the balance
  is the same with and without it, the repayment of period 2 is higher by 10, and the
  item of period 1 is the same.
\<close>

theorem fee_changes_repayment_only_witness:
  "operators level_engine = [] @ \<lparr>startPeriod = 2, endPeriod = 2, adjustment = Fee 10\<rparr> # []
   \<and> adjustment \<lparr>startPeriod = 2, endPeriod = 2, adjustment = Fee 10\<rparr> = Fee 10
   \<and> level_engine_without_fee = level_engine\<lparr>operators := [] @ []\<rparr>
   \<and> (\<exists>res res'. calculate annuity_math level_engine = Inr res
        \<and> calculate annuity_math level_engine_without_fee = Inr res'
        \<and> map (\<lambda>e. futureValue (amortization e)) (scheduleList res)
            = map (\<lambda>e. futureValue (amortization e)) (scheduleList res')
        \<and> map (\<lambda>e. futureValue (amortization e)) (scheduleList res)
            = [1000, 2000 / 3, 1000 / 3, 0]
        \<and> Amortization.repayment (amortization (scheduleList res ! 2)) = 1030 / 3
        \<and> Amortization.repayment (amortization (scheduleList res' ! 2)) = 1000 / 3
        \<and> scheduleList res ! 1 = scheduleList res' ! 1)"
proof (intro conjI)
  let ?op = "\<lparr>startPeriod = 2, endPeriod = 2, adjustment = Fee 10\<rparr>"
  show h1: "operators level_engine = [] @ ?op # []"
    by (simp add: level_engine_def)
  show h2: "adjustment ?op = Fee 10" by simp
  show h3: "level_engine_without_fee = level_engine\<lparr>operators := [] @ []\<rparr>"
    by (simp add: level_engine_without_fee_def)
  from fee_changes_repayment_only[OF h1 h2 h3, of annuity_math] obtain res res' where
    r: "calculate annuity_math level_engine = Inr res"
    and r': "calculate annuity_math level_engine_without_fee = Inr res'"
    and fvs: "map (\<lambda>e. futureValue (amortization e)) (scheduleList res)
         = map (\<lambda>e. futureValue (amortization e)) (scheduleList res')"
    and same: "\<forall>i. i < length (scheduleList res)
            \<and> \<not> (startPeriod ?op \<le> i \<and> i \<le> endPeriod ?op)
            \<longrightarrow> scheduleList res ! i = scheduleList res' ! i"
    by blast
  from level_engine_eval r have
    fv: "map (\<lambda>e. futureValue (amortization e)) (scheduleList res)
           = [1000, 2000 / 3, 1000 / 3, 0]"
    and ar: "map (\<lambda>e. Amortization.repayment (amortization e)) (scheduleList res)
           = [0, 1000 / 3, 1030 / 3, 1000 / 3]"
    by auto
  from level_engine_without_fee_eval r' have
    ar': "map (\<lambda>e. Amortization.repayment (amortization e)) (scheduleList res')
           = [0, 1000 / 3, 1000 / 3, 1000 / 3]"
    by auto
  have len: "length (scheduleList res) = 4"
    using map_eq_length[OF fv] by simp
  have a2: "Amortization.repayment (amortization (scheduleList res ! 2)) = 1030 / 3"
    using map_eq_nth[OF ar, of 2] by simp
  have a2': "Amortization.repayment (amortization (scheduleList res' ! 2)) = 1000 / 3"
    using map_eq_nth[OF ar', of 2] by simp
  have s1: "scheduleList res ! 1 = scheduleList res' ! 1"
    using same[rule_format, of 1] len by simp
  show "\<exists>res res'. calculate annuity_math level_engine = Inr res
        \<and> calculate annuity_math level_engine_without_fee = Inr res'
        \<and> map (\<lambda>e. futureValue (amortization e)) (scheduleList res)
            = map (\<lambda>e. futureValue (amortization e)) (scheduleList res')
        \<and> map (\<lambda>e. futureValue (amortization e)) (scheduleList res)
            = [1000, 2000 / 3, 1000 / 3, 0]
        \<and> Amortization.repayment (amortization (scheduleList res ! 2)) = 1030 / 3
        \<and> Amortization.repayment (amortization (scheduleList res' ! 2)) = 1000 / 3
        \<and> scheduleList res ! 1 = scheduleList res' ! 1"
    by (intro exI[of _ res] exI[of _ res'] conjI) (fact r r' fvs fv a2 a2' s1)+
qed

text \<open>
  Claim C7, as amended, at the loan with principal 0 over 3 periods: the initial item, one
  item of period 1, totals 0 and 0.
\<close>

theorem zero_principal_schedule_witness:
  "presentValue (base_context zero_principal_engine) = 0
   \<and> operators zero_principal_engine = []
   \<and> effExtraRepayment (base_context zero_principal_engine) = None
   \<and> lumpSum (base_context zero_principal_engine) = None
   \<and> offset (base_context zero_principal_engine) = None
   \<and> fee (base_context zero_principal_engine) = None
   \<and> 0 \<le> Context.repayment (base_context zero_principal_engine)
   \<and> pmt annuity_math 0 (effInterestRate (base_context zero_principal_engine))
        (effTerm (base_context zero_principal_engine)) = 0
   \<and> 1 \<le> effTerm (base_context zero_principal_engine)
   \<and> (\<exists>res. calculate annuity_math zero_principal_engine = Inr res
        \<and> map period (scheduleList res) = [0, 1]
        \<and> map amortization (scheduleList res) = [Amortization_new, Amortization_new]
        \<and> totals res = \<lparr>repayment = 0, interestPaid = 0\<rparr>)"
proof (intro conjI)
  let ?E = zero_principal_engine
  note ev = eval_defs zero_principal_engine_def zero_principal_options_def
  show h1: "presentValue (base_context ?E) = 0" by (simp add: ev)
  show h2: "operators ?E = []" by (simp add: ev)
  show h3: "effExtraRepayment (base_context ?E) = None" by (simp add: ev)
  show h4: "lumpSum (base_context ?E) = None" by (simp add: ev)
  show h5: "offset (base_context ?E) = None" by (simp add: ev)
  show h6: "fee (base_context ?E) = None" by (simp add: ev)
  show h7: "0 \<le> Context.repayment (base_context ?E)" by (simp add: ev)
  show h8: "pmt annuity_math 0 (effInterestRate (base_context ?E))
              (effTerm (base_context ?E)) = 0"
    by (simp add: ev)
  show t: "1 \<le> effTerm (base_context ?E)" by (simp add: ev)
  from zero_principal_schedule[OF h1 h2 h3 h4 h5 h6 h7 h8] t
  show "\<exists>res. calculate annuity_math ?E = Inr res
        \<and> map period (scheduleList res) = [0, 1]
        \<and> map amortization (scheduleList res) = [Amortization_new, Amortization_new]
        \<and> totals res = \<lparr>repayment = 0, interestPaid = 0\<rparr>"
    by simp
qed

text \<open>
  Claim C7 as the specification states it fails at the same loan: the schedule holds an
  item of period 1 after the initial item.
\<close>

theorem zero_principal_counterexample:
  "\<exists>res. calculate annuity_math zero_principal_engine = Inr res
     \<and> presentValue (base_context zero_principal_engine) = 0
     \<and> length (scheduleList res) = 2
     \<and> map period (scheduleList res) = [0, 1]"
  by (simp add: eval_defs zero_principal_engine_def zero_principal_options_def)

text \<open>
  Claim C8, as amended, at the options with a negative principal, rate and term.
\<close>

theorem construction_keeps_values_witness:
  "options.term negative_options = Some (- 10) \<and> (- 10 :: real) \<noteq> 0
   \<and> term (base_context (LoanCalculatorEngine_new annuity_math negative_options std_config))
       = - 10
   \<and> presentValue
         (base_context (LoanCalculatorEngine_new annuity_math negative_options std_config))
       = - 1000"
proof (intro conjI)
  show t: "options.term negative_options = Some (- 10)"
    by (simp add: negative_options_def no_options_def)
  show n: "(- 10 :: real) \<noteq> 0" by simp
  from construction_keeps_values[of annuity_math negative_options std_config] t n
  show "term (base_context (LoanCalculatorEngine_new annuity_math negative_options std_config))
       = - 10"
    by blast
  from construction_keeps_values[of annuity_math negative_options std_config]
  show "presentValue
         (base_context (LoanCalculatorEngine_new annuity_math negative_options std_config))
       = - 1000"
    by (simp add: negative_options_def no_options_def)
qed

text \<open>
  Claim C8 as the specification states it fails: the construction with a principal of
  - 1000, a rate of - 0.06 and a term of - 10 returns an engine, whose base context holds
  these values.
\<close>

theorem negative_parameters_counterexample:
  "base_context (LoanCalculatorEngine_new annuity_math negative_options std_config) =
     \<lparr>presentValue = - 1000, interestRate = - (3 / 50), interestRateFrequency = 1,
      effInterestRate = - (1 / 200), term = - 10, termFrequency = 1, effTerm = - 120,
      repayment = 0, repaymentType = ''PI'', repaymentFrequency = 12,
      effExtraRepayment = None, lumpSum = None, offset = None, fee = None\<rparr>"
  by (simp add: eval_defs negative_options_def)

text \<open>
  Claim C9, as amended, at a principal of 1000 with a fixed repayment of 400 at rate 0:
  two periods and a half round to a term of 3 (years), and effTerm is 36 (months).
\<close>

theorem derived_term_rounded_witness:
  "(options.term derived_term_options = None \<or> options.term derived_term_options = Some 0)
   \<and> nper annuity_math
        (presentValue (Context_new annuity_math derived_term_options std_config))
        (effInterestRate (Context_new annuity_math derived_term_options std_config))
        (Context.repayment (Context_new annuity_math derived_term_options std_config))
       = 5 / 2
   \<and> term (Context_new annuity_math derived_term_options std_config) = 3
   \<and> round_half_away_from_zero (5 / 2) = 3
   \<and> effTerm (Context_new annuity_math derived_term_options std_config) = 36"
proof (intro conjI)
  let ?c = "Context_new annuity_math derived_term_options std_config"
  show h: "options.term derived_term_options = None
             \<or> options.term derived_term_options = Some 0"
    by (simp add: derived_term_options_def no_options_def)
  show n: "nper annuity_math (presentValue ?c) (effInterestRate ?c) (Context.repayment ?c)
             = 5 / 2"
    by (simp add: eval_defs derived_term_options_def)
  from derived_term_rounded[OF h, of annuity_math std_config]
  have t: "term ?c = of_int \<lfloor>nper annuity_math (presentValue ?c) (effInterestRate ?c)
                               (Context.repayment ?c) + 1 / 2\<rfloor>"
    and a: "0 \<le> nper annuity_math (presentValue ?c) (effInterestRate ?c)
                    (Context.repayment ?c) \<longrightarrow>
            term ?c = round_half_away_from_zero
              (nper annuity_math (presentValue ?c) (effInterestRate ?c)
                 (Context.repayment ?c))"
    and e: "effTerm ?c = CalculatorEngineMath.effTerm annuity_math (term ?c)
               (termFrequency ?c) (repaymentFrequency ?c)"
    by blast+
  from t show t3: "term ?c = 3" unfolding n by simp
  from a show "round_half_away_from_zero (5 / 2) = 3" unfolding n t3 by simp
  from e show "effTerm ?c = 36"
    unfolding t3 by (simp add: eval_defs derived_term_options_def)
qed

text \<open>
  Claim C9 as the specification states it fails at a negative tie: with a principal of 5
  and a fixed repayment of - 2 at rate 0 the number of periods is - 5 / 2, which
  \<^verbatim>\<open>Math.round\<close> takes to - 2, and rounding half away from zero to - 3.
\<close>

theorem negative_tie_counterexample:
  "(options.term negative_tie_options = None)
   \<and> nper annuity_math
        (presentValue (Context_new annuity_math negative_tie_options std_config))
        (effInterestRate (Context_new annuity_math negative_tie_options std_config))
        (Context.repayment (Context_new annuity_math negative_tie_options std_config))
       = - 5 / 2
   \<and> term (Context_new annuity_math negative_tie_options std_config) = - 2
   \<and> round_half_away_from_zero (- 5 / 2) = - 3"
  by (simp add: eval_defs negative_tie_options_def round_half_away_from_zero_def)

end
